theory Spec2Isabelle
  imports Main
begin

section \<open>Values, errors and the connection handle\<close>

text \<open>
  JavaScript values that travel as query parameters (\<^verbatim>\<open>any[] | any[][]\<close>). A missing
  argument is \<open>JUndefined\<close>; \<^verbatim>\<open>Array.isArray\<close> holds exactly of \<open>JArr\<close>.
\<close>

datatype jsval = JUndefined | JNull | JNum int | JStr string | JArr "jsval list"

fun isArray :: "jsval \<Rightarrow> bool" where
  "isArray (JArr xs) = True"
| "isArray v = False"

text \<open>The elements of an array (used only where \<open>isArray\<close> holds).\<close>

fun elements :: "jsval \<Rightarrow> jsval list" where
  "elements (JArr xs) = xs"
| "elements v = []"

text \<open>
  Thrown values. \<open>DatabaseErrorC\<close> and \<open>TransactionErrorC\<close> are the two classes that the
  \<^verbatim>\<open>instanceof\<close> tests of \<^verbatim>\<open>transactions.ts\<close> look for; every other thrown value (an
  error of the \<^verbatim>\<open>pg\<close> driver, say) is \<open>OtherErrorC\<close>. \<open>err_code\<close> is the \<^verbatim>\<open>code\<close>
  property, which may be undefined.
\<close>

datatype error_class = DatabaseErrorC | TransactionErrorC | OtherErrorC

record js_error =
  err_class :: error_class
  err_message :: string
  err_code :: "string option"

text \<open>
  Modelled from the spec: the classes \<^verbatim>\<open>DatabaseError\<close> and \<^verbatim>\<open>TransactionError\<close> of
  \<^verbatim>\<open>src/errors/error.ts\<close> are not among the sources. Their constructors take a message
  and an optional code; the README (section Errors) gives the default codes \<^verbatim>\<open>DB_ERR\<close>
  and \<^verbatim>\<open>TRANSACTION_ERR\<close>.
\<close>

definition DatabaseError :: "string \<Rightarrow> string option \<Rightarrow> js_error" where
  "DatabaseError msg c =
     \<lparr>err_class = DatabaseErrorC, err_message = msg,
      err_code = Some (case c of None \<Rightarrow> ''DB_ERR'' | Some k \<Rightarrow> k)\<rparr>"

definition TransactionError :: "string \<Rightarrow> string option \<Rightarrow> js_error" where
  "TransactionError msg c =
     \<lparr>err_class = TransactionErrorC, err_message = msg,
      err_code = Some (case c of None \<Rightarrow> ''TRANSACTION_ERR'' | Some k \<Rightarrow> k)\<rparr>"

text \<open>The message of the guard \<^verbatim>\<open>if (!client) throw new DatabaseError(...)\<close>.\<close>

definition NO_CLIENT :: string where
  "NO_CLIENT = ''Could'nt find a client connection. Make sure that you have initialized the client connection before proceeding to this method.''"

text \<open>
  A template literal \<^verbatim>\<open>${(error.message, error.code)}\<close>: the comma operator yields its
  right operand, so only the code is interpolated; an undefined code prints as
  \<^verbatim>\<open>undefined\<close>.
\<close>

definition interpolated :: "js_error \<Rightarrow> string" where
  "interpolated e = (case err_code e of None \<Rightarrow> ''undefined'' | Some k \<Rightarrow> k)"

text \<open>
  One call \<^verbatim>\<open>client.query(text, values)\<close>. The handle (\<^verbatim>\<open>PoolClient\<close> of \<^verbatim>\<open>pg\<close>) is an
  external collaborator: its answer to a call may depend on every call it has received
  before, so \<open>client_query\<close> takes that history; \<open>client_release\<close> is the outcome of
  \<^verbatim>\<open>client.release()\<close> given the number of earlier releases.
\<close>

type_synonym call = "string \<times> jsval"

record 'r PoolClient =
  client_query :: "call list \<Rightarrow> call \<Rightarrow> js_error + 'r"
  client_release :: "nat \<Rightarrow> js_error option"

text \<open>
  What the program does to its surroundings: the calls issued to the connection handle
  (oldest first), the number of \<^verbatim>\<open>release()\<close> calls, and the number of references drawn
  from the reference generator.
\<close>

record world =
  calls :: "call list"
  releases :: nat
  refs_drawn :: nat

definition pg_query :: "'r PoolClient \<Rightarrow> string \<Rightarrow> jsval \<Rightarrow> world \<Rightarrow> (js_error + 'r) \<times> world" where
  "pg_query c s p w = (client_query c (calls w) (s, p), w\<lparr>calls := calls w @ [(s, p)]\<rparr>)"

section \<open>The deadlock-aware executor\<close>

text \<open>
  Modelled from the spec: \<^verbatim>\<open>manageDeadlocks\<close> of \<^verbatim>\<open>src/lib/deadlock.ts\<close> is not among the
  sources. Section 4.1 of the specification: the unit of work is invoked; a success is
  returned at once; a failure with the conflict signature is retried while attempts
  remain, up to \<open>maxAttempts\<close> invocations in total; any other failure, and the failure
  of the last attempt, is propagated unchanged. The test for the conflict signature is
  the parameter \<open>conflict\<close>. The backoff delay changes no state and is left out.
\<close>

fun retrying :: "(js_error \<Rightarrow> bool) \<Rightarrow> ('s \<Rightarrow> (js_error + 'a) \<times> 's) \<Rightarrow> nat \<Rightarrow> 's \<Rightarrow> (js_error + 'a) \<times> 's" where
  "retrying conflict work 0 s = work s"
| "retrying conflict work (Suc left) s =
     (case work s of
        (Inr v, s') \<Rightarrow> (Inr v, s')
      | (Inl e, s') \<Rightarrow> if conflict e then retrying conflict work left s' else (Inl e, s'))"

definition manageDeadlocks :: "(js_error \<Rightarrow> bool) \<Rightarrow> nat \<Rightarrow> ('s \<Rightarrow> (js_error + 'a) \<times> 's) \<Rightarrow> 's \<Rightarrow> (js_error + 'a) \<times> 's" where
  "manageDeadlocks conflict maxAttempts work s = retrying conflict work (maxAttempts - 1) s"

text \<open>A unit of work instrumented with a counter of its invocations.\<close>

definition counting :: "('s \<Rightarrow> (js_error + 'a) \<times> 's) \<Rightarrow> nat \<times> 's \<Rightarrow> (js_error + 'a) \<times> (nat \<times> 's)" where
  "counting work = (\<lambda>(n, s). case work s of (r, s') \<Rightarrow> (r, (Suc n, s')))"

text \<open>The state that the invocation number \<open>j\<close> (counted from 0) of a unit of work starts in.\<close>

fun state_after :: "('s \<Rightarrow> (js_error + 'a) \<times> 's) \<Rightarrow> nat \<Rightarrow> 's \<Rightarrow> 's" where
  "state_after work 0 s = s"
| "state_after work (Suc j) s = state_after work j (snd (work s))"

section \<open>The query runner\<close>

datatype sql_arg = Sql string | Sqls "string list"

datatype 'r query_outcome = One 'r | Several "'r list"

text \<open>
  Modelled from the spec: the type \<^verbatim>\<open>ExecuteDbQueryOptions\<close> of \<^verbatim>\<open>src/types\<close> is not among
  the sources; the specification names one recognised option, \<^verbatim>\<open>parallel\<close>, a boolean that
  may be absent.
\<close>

record ExecuteDbQueryOptions =
  parallel :: "bool option"

text \<open>\<^verbatim>\<open>options?.parallel\<close> as a condition.\<close>

definition wants_parallel :: "ExecuteDbQueryOptions option \<Rightarrow> bool" where
  "wants_parallel options = (case options of None \<Rightarrow> False | Some opts \<Rightarrow> parallel opts = Some True)"

text \<open>\<^verbatim>\<open>params[i]\<close>: reading past the end of an array gives \<^verbatim>\<open>undefined\<close>.\<close>

definition at_index :: "jsval list \<Rightarrow> nat \<Rightarrow> jsval" where
  "at_index ps i = (if i < length ps then ps ! i else JUndefined)"

text \<open>
  The sequential loop
  \<^verbatim>\<open>for (let i = 0; i < sql.length; i++) { const result = await client.query(sql[i], params[i]); queryResult.push(result); }\<close>
  with the results pushed so far as accumulator; a rejected \<^verbatim>\<open>await\<close> leaves the loop.
\<close>

function sequentially :: "'r PoolClient \<Rightarrow> string list \<Rightarrow> jsval list \<Rightarrow> nat \<Rightarrow> 'r list \<Rightarrow> world \<Rightarrow> (js_error + 'r list) \<times> world" where
  "sequentially c ss ps i queryResult w =
     (if i < length ss then
        (case pg_query c (ss ! i) (at_index ps i) w of
           (Inl e, w') \<Rightarrow> (Inl e, w')
         | (Inr result, w') \<Rightarrow> sequentially c ss ps (Suc i) (queryResult @ [result]) w')
      else (Inr queryResult, w))"
  by pat_completeness auto
termination
  by (relation "measure (\<lambda>(c, ss, ps, i, queryResult, w). length ss - i)") auto

declare sequentially.simps [simp del]

text \<open>
  The parallel branch. \<^verbatim>\<open>sql.map((query, index) => client.query(query, params[index]))\<close>
  issues every call, in input order, before any of them is awaited; the outcomes are
  kept by position.
\<close>

fun dispatch :: "'r PoolClient \<Rightarrow> string list \<Rightarrow> jsval list \<Rightarrow> nat \<Rightarrow> world \<Rightarrow> (js_error + 'r) list \<times> world" where
  "dispatch c [] ps index w = ([], w)"
| "dispatch c (query # rest) ps index w =
     (case pg_query c query (at_index ps index) w of
        (outcome, w') \<Rightarrow> (case dispatch c rest ps (Suc index) w' of
                           (outcomes, w'') \<Rightarrow> (outcome # outcomes, w'')))"

text \<open>
  \<^verbatim>\<open>Promise.all\<close>: when every promise fulfils, the values by position; otherwise the
  reason of the promise that rejects first. Which one that is depends on the order
  \<open>settled\<close> in which the promises settle (positions, earliest first), a choice of the
  event loop and the driver that the program does not control.
\<close>

definition Promise_all :: "nat list \<Rightarrow> (js_error + 'r) list \<Rightarrow> js_error + 'r list" where
  "Promise_all settled outcomes =
     (case filter (\<lambda>k. k < length outcomes \<and> isl (outcomes ! k)) (settled @ [0..<length outcomes]) of
        [] \<Rightarrow> Inr (map projr outcomes)
      | k # _ \<Rightarrow> Inl (projl (outcomes ! k)))"

text \<open>
  The unit of work that \<^verbatim>\<open>executeDbQuery\<close> hands to \<^verbatim>\<open>manageDeadlocks\<close> (the arrow function
  of \<^verbatim>\<open>query.ts\<close>); its \<^verbatim>\<open>catch\<close> rethrows the error as it is.
\<close>

definition attempt :: "nat list \<Rightarrow> 'r PoolClient option \<Rightarrow> sql_arg \<Rightarrow> jsval \<Rightarrow> ExecuteDbQueryOptions option \<Rightarrow> world \<Rightarrow> (js_error + 'r query_outcome) \<times> world" where
  "attempt settled client sql params options w =
     (case client of
        None \<Rightarrow> (Inl (DatabaseError NO_CLIENT None), w)
      | Some c \<Rightarrow>
          (case sql of
             Sqls ss \<Rightarrow>
               if \<not> isArray params \<or> length ss \<noteq> length (elements params)
               then (Inl (DatabaseError ''Mismatched SQL queries and parameters.'' None), w)
               else if wants_parallel options
               then (case dispatch c ss (elements params) 0 w of
                       (promises, w') \<Rightarrow>
                         (case Promise_all settled promises of
                            Inl e \<Rightarrow> (Inl e, w')
                          | Inr rs \<Rightarrow> (Inr (Several rs), w')))
               else (case sequentially c ss (elements params) 0 [] w of
                       (Inl e, w') \<Rightarrow> (Inl e, w')
                     | (Inr rs, w') \<Rightarrow> (Inr (Several rs), w'))
           | Sql s \<Rightarrow>
               (case pg_query c s params w of
                  (Inl e, w') \<Rightarrow> (Inl e, w')
                | (Inr result, w') \<Rightarrow> (Inr (One result), w'))))"

text \<open>A default parameter \<^verbatim>\<open>params = []\<close>: it replaces an argument that is undefined.\<close>

definition default_params :: "jsval \<Rightarrow> jsval" where
  "default_params params = (if params = JUndefined then JArr [] else params)"

definition executeDbQuery :: "(js_error \<Rightarrow> bool) \<Rightarrow> nat list \<Rightarrow> 'r PoolClient option \<Rightarrow> sql_arg \<Rightarrow> jsval \<Rightarrow> ExecuteDbQueryOptions option \<Rightarrow> world \<Rightarrow> (js_error + 'r query_outcome) \<times> world" where
  "executeDbQuery conflict settled client sql params options =
     manageDeadlocks conflict 3 (attempt settled client sql (default_params params) options)"

section \<open>The transaction methods\<close>

text \<open>
  Modelled from the spec: \<^verbatim>\<open>generateRefNo\<close> of \<^verbatim>\<open>src/helpers/ref.ts\<close> is not among the
  sources. It produces an identifier and a timestamp; here the generator is a parameter
  \<open>gen\<close> that maps the number of references drawn before to the next reference.
\<close>

record reference =
  ref_uuid :: string
  ref_timestamp :: string

text \<open>
  The variables captured by the closures of \<^verbatim>\<open>initializeDbTransaction\<close>: the parameter
  \<^verbatim>\<open>client\<close> and the two variables \<^verbatim>\<open>uuid\<close> and \<^verbatim>\<open>timestamp\<close>, declared without a value.
\<close>

record 'r TransactionMethods =
  client :: "'r PoolClient option"
  uuid :: "string option"
  timestamp_var :: "string option"

definition initializeDbTransaction :: "'r PoolClient option \<Rightarrow> 'r TransactionMethods" where
  "initializeDbTransaction c = \<lparr>client = c, uuid = None, timestamp_var = None\<rparr>"

text \<open>The \<^verbatim>\<open>catch\<close> block shared, word for word, by \<^verbatim>\<open>init\<close> and \<^verbatim>\<open>query\<close>.\<close>

definition rewrap :: "js_error \<Rightarrow> js_error" where
  "rewrap e =
     (if err_class e = DatabaseErrorC \<or> err_class e = TransactionErrorC
      then TransactionError (''Failed to initialize transaction: '' @ interpolated e) None
      else e)"

definition init :: "'r TransactionMethods \<Rightarrow> world \<Rightarrow> (js_error + unit) \<times> 'r TransactionMethods \<times> world" where
  "init t w =
     (case client t of
        None \<Rightarrow> (Inl (rewrap (DatabaseError NO_CLIENT None)), t, w)
      | Some c \<Rightarrow>
          (case pg_query c ''BEGIN'' JUndefined w of
             (Inl e, w') \<Rightarrow> (Inl (rewrap e), t, w')
           | (Inr result, w') \<Rightarrow> (Inr (), t, w')))"

definition query :: "(js_error \<Rightarrow> bool) \<Rightarrow> (nat \<Rightarrow> reference) \<Rightarrow> nat list \<Rightarrow> 'r TransactionMethods \<Rightarrow> sql_arg \<Rightarrow> jsval \<Rightarrow> ExecuteDbQueryOptions option \<Rightarrow> world \<Rightarrow> (js_error + 'r query_outcome) \<times> 'r TransactionMethods \<times> world" where
  "query conflict gen settled t sql params options w =
     (case executeDbQuery conflict settled (client t) sql (default_params params) options w of
        (Inr queryResult, w') \<Rightarrow>
          (let ref = gen (refs_drawn w')
           in (Inr queryResult,
               t\<lparr>timestamp_var := Some (ref_timestamp ref), uuid := Some (ref_uuid ref)\<rparr>,
               w'\<lparr>refs_drawn := Suc (refs_drawn w')\<rparr>))
      | (Inl e, w') \<Rightarrow> (Inl (rewrap e), t, w'))"

text \<open>The \<^verbatim>\<open>catch\<close> block of \<^verbatim>\<open>commit\<close>: it tests the code, not the class.\<close>

definition commit_catch :: "js_error \<Rightarrow> js_error" where
  "commit_catch e =
     (if err_code e \<noteq> Some ''CONN_NOT_INIT''
      then TransactionError (''Failed to commit transaction: '' @ interpolated e) None
      else TransactionError (err_message e) (err_code e))"

definition commit :: "'r TransactionMethods \<Rightarrow> world \<Rightarrow> (js_error + unit) \<times> 'r TransactionMethods \<times> world" where
  "commit t w =
     (case client t of
        None \<Rightarrow> (Inl (commit_catch (DatabaseError NO_CLIENT None)), t, w)
      | Some c \<Rightarrow>
          (case pg_query c ''COMMIT'' JUndefined w of
             (Inl e, w') \<Rightarrow> (Inl (commit_catch e), t, w')
           | (Inr result, w') \<Rightarrow> (Inr (), t, w')))"

text \<open>\<^verbatim>\<open>rollback\<close> has no \<^verbatim>\<open>try\<close>: a rejected \<^verbatim>\<open>await client.query("ROLLBACK")\<close> rejects it.\<close>

definition rollback :: "'r TransactionMethods \<Rightarrow> world \<Rightarrow> (js_error + unit) \<times> 'r TransactionMethods \<times> world" where
  "rollback t w =
     (case client t of
        Some c \<Rightarrow>
          (case pg_query c ''ROLLBACK'' JUndefined w of
             (Inl e, w') \<Rightarrow> (Inl e, t, w')
           | (Inr result, w') \<Rightarrow> (Inr (), t, w'))
      | None \<Rightarrow> (Inr (), t, w))"

record TransactionMetadata =
  connection :: bool
  referenceNo :: "string option"
  timestamp :: "string option"

definition retrieve :: "'r TransactionMethods \<Rightarrow> TransactionMetadata" where
  "retrieve t = \<lparr>connection = (client t \<noteq> None), referenceNo = uuid t, timestamp = timestamp_var t\<rparr>"

text \<open>A caller's use of the object: one method call after another, until one throws.\<close>

datatype method_call =
    Init
  | Query sql_arg jsval "ExecuteDbQueryOptions option"
  | Commit
  | Rollback

fun invoke :: "(js_error \<Rightarrow> bool) \<Rightarrow> (nat \<Rightarrow> reference) \<Rightarrow> nat list \<Rightarrow> method_call \<Rightarrow> 'r TransactionMethods \<Rightarrow> world \<Rightarrow> (js_error + unit) \<times> 'r TransactionMethods \<times> world" where
  "invoke conflict gen settled Init t w = init t w"
| "invoke conflict gen settled (Query sql params options) t w =
     (case query conflict gen settled t sql params options w of
        (Inl e, t', w') \<Rightarrow> (Inl e, t', w')
      | (Inr queryResult, t', w') \<Rightarrow> (Inr (), t', w'))"
| "invoke conflict gen settled Commit t w = commit t w"
| "invoke conflict gen settled Rollback t w = rollback t w"

text \<open>
  Any sequence of method calls, whatever each of them returns or throws (the caller may
  catch an error and go on, as the handlers of the documentation do with \<^verbatim>\<open>rollback\<close>).
\<close>

fun invoke_all :: "(js_error \<Rightarrow> bool) \<Rightarrow> (nat \<Rightarrow> reference) \<Rightarrow> nat list \<Rightarrow> method_call list \<Rightarrow> 'r TransactionMethods \<Rightarrow> world \<Rightarrow> 'r TransactionMethods \<times> world" where
  "invoke_all conflict gen settled [] t w = (t, w)"
| "invoke_all conflict gen settled (m # ms) t w =
     (case invoke conflict gen settled m t w of
        (outcome, t', w') \<Rightarrow> invoke_all conflict gen settled ms t' w')"

section \<open>The connection session\<close>

text \<open>
  The variable \<^verbatim>\<open>client\<close> of \<^verbatim>\<open>initializeDatabase\<close>, declared without a value and assigned
  by \<^verbatim>\<open>initializeConnection\<close>.
\<close>

record 'r DatabaseInstance =
  session_client :: "'r PoolClient option"

definition initializeDatabase :: "'r DatabaseInstance" where
  "initializeDatabase = \<lparr>session_client = None\<rparr>"

definition transaction :: "'r DatabaseInstance \<Rightarrow> 'r TransactionMethods" where
  "transaction s = initializeDbTransaction (session_client s)"

text \<open>
  \<^verbatim>\<open>releaseConnection\<close>: the guard throws inside the \<^verbatim>\<open>try\<close>, and the \<^verbatim>\<open>catch\<close> returns
  on the code \<^verbatim>\<open>CONN_NOT_INIT\<close> and wraps every other error.
\<close>

definition release_catch :: "js_error \<Rightarrow> js_error + unit" where
  "release_catch e =
     (if err_code e = Some ''CONN_NOT_INIT'' then Inr ()
      else Inl (DatabaseError (err_message e) (err_code e)))"

definition releaseConnection :: "'r DatabaseInstance \<Rightarrow> world \<Rightarrow> (js_error + unit) \<times> world" where
  "releaseConnection s w =
     (case session_client s of
        None \<Rightarrow> (release_catch (DatabaseError NO_CLIENT None), w)
      | Some c \<Rightarrow>
          (case client_release c (releases w) of
             None \<Rightarrow> (Inr (), w\<lparr>releases := Suc (releases w)\<rparr>)
           | Some e \<Rightarrow> (release_catch e, w\<lparr>releases := Suc (releases w)\<rparr>)))"

section \<open>Notions used to state the properties\<close>

text \<open>
  The calls that a multi-statement request issues, statement by statement: the
  statement at position \<open>k\<close> onwards paired with \<^verbatim>\<open>params[k]\<close>.
\<close>

fun paired :: "string list \<Rightarrow> jsval list \<Rightarrow> nat \<Rightarrow> call list" where
  "paired [] ps k = []"
| "paired (s # ss) ps k = (s, at_index ps k) # paired ss ps (Suc k)"

text \<open>
  The answers of the handle to a list of calls issued one after the other, each call
  seeing the calls before it.
\<close>

fun answers :: "'r PoolClient \<Rightarrow> call list \<Rightarrow> call list \<Rightarrow> (js_error + 'r) list" where
  "answers c history [] = []"
| "answers c history (x # xs) = client_query c history x # answers c (history @ [x]) xs"

text \<open>The sequential loop over the list of its calls.\<close>

fun run_calls :: "'r PoolClient \<Rightarrow> call list \<Rightarrow> 'r list \<Rightarrow> world \<Rightarrow> (js_error + 'r list) \<times> world" where
  "run_calls c [] acc w = (Inr acc, w)"
| "run_calls c (x # xs) acc w =
     (case client_query c (calls w) x of
        Inl e \<Rightarrow> (Inl e, w\<lparr>calls := calls w @ [x]\<rparr>)
      | Inr r \<Rightarrow> run_calls c xs (acc @ [r]) (w\<lparr>calls := calls w @ [x]\<rparr>))"

section \<open>Concrete handles, errors and units of work\<close>

text \<open>Errors as the driver reports them, with their SQLSTATE codes.\<close>

definition deadlock_detected :: js_error where
  "deadlock_detected = \<lparr>err_class = OtherErrorC, err_message = ''deadlock detected'', err_code = Some ''40P01''\<rparr>"

definition unique_violation :: js_error where
  "unique_violation = \<lparr>err_class = OtherErrorC, err_message = ''duplicate key'', err_code = Some ''23505''\<rparr>"

definition syntax_error :: js_error where
  "syntax_error = \<lparr>err_class = OtherErrorC, err_message = ''syntax error'', err_code = Some ''42601''\<rparr>"

definition connection_lost :: js_error where
  "connection_lost = \<lparr>err_class = OtherErrorC, err_message = ''connection lost'', err_code = Some ''08006''\<rparr>"

text \<open>
  A test for the conflict signature: the codes of a detected deadlock and of a
  serialization failure.
\<close>

definition is_conflict_code :: "js_error \<Rightarrow> bool" where
  "is_conflict_code e = (err_code e = Some ''40P01'' \<or> err_code e = Some ''40001'')"

text \<open>
  Four handles: one that answers every statement with its own text, one that rejects
  one statement, one that rejects everything, and one that reports a deadlock on
  everything.
\<close>

definition healthy :: "string PoolClient" where
  "healthy = \<lparr>client_query = (\<lambda>history (s, p). Inr s), client_release = (\<lambda>n. None)\<rparr>"

definition rejecting :: "string \<Rightarrow> string PoolClient" where
  "rejecting bad = \<lparr>client_query = (\<lambda>history (s, p). if s = bad then Inl syntax_error else Inr s),
                    client_release = (\<lambda>n. None)\<rparr>"

definition broken :: "string PoolClient" where
  "broken = \<lparr>client_query = (\<lambda>history (s, p). Inl connection_lost), client_release = (\<lambda>n. None)\<rparr>"

definition deadlocked :: "string PoolClient" where
  "deadlocked = \<lparr>client_query = (\<lambda>history (s, p). Inl deadlock_detected), client_release = (\<lambda>n. None)\<rparr>"

definition w0 :: world where
  "w0 = \<lparr>calls = [], releases = 0, refs_drawn = 0\<rparr>"

text \<open>The options \<^verbatim>\<open>{ parallel: true }\<close>.\<close>

definition parallel_on :: "ExecuteDbQueryOptions option" where
  "parallel_on = Some \<lparr>parallel = Some True\<rparr>"

text \<open>A reference generator whose references show how many were drawn before.\<close>

definition numbered :: "nat \<Rightarrow> reference" where
  "numbered n = \<lparr>ref_uuid = ''REF'' @ replicate n (CHR ''+''), ref_timestamp = ''T'' @ replicate n (CHR ''+'')\<rparr>"

text \<open>Two units of work over a counter: one always in conflict, one failing otherwise.\<close>

definition busy :: "nat \<Rightarrow> (js_error + unit) \<times> nat" where
  "busy s = (Inl (deadlock_detected\<lparr>err_message := replicate (Suc s) (CHR ''!'')\<rparr>), Suc s)"

definition failing :: "nat \<Rightarrow> (js_error + unit) \<times> nat" where
  "failing s = (Inl unique_violation, Suc s)"

text \<open>A unit of work in conflict at its first invocation and failing otherwise afterwards.\<close>

definition flaky :: "nat \<Rightarrow> (js_error + unit) \<times> nat" where
  "flaky s = (if s = 0 then Inl deadlock_detected else Inl unique_violation, Suc s)"

section \<open>The retry loop\<close>

lemma retrying_success:
  "work s = (Inr v, s') \<Longrightarrow> retrying conflict work left s = (Inr v, s')"
  by (cases left) simp_all

lemma retrying_other_failure:
  "work s = (Inl e, s') \<Longrightarrow> \<not> conflict e \<Longrightarrow> retrying conflict work left s = (Inl e, s')"
  by (cases left) simp_all

lemma counting_apply: "counting work (n, s) = (fst (work s), Suc n, snd (work s))"
  by (simp add: counting_def split: prod.splits)

lemma retrying_stuck:
  "work s = (Inl e, s) \<Longrightarrow> retrying conflict work left s = (Inl e, s)"
  by (induction left) simp_all

lemma manageDeadlocks_success:
  "work s = (Inr v, s') \<Longrightarrow> manageDeadlocks conflict n work s = (Inr v, s')"
  by (simp add: manageDeadlocks_def retrying_success)

lemma manageDeadlocks_other_failure:
  "work s = (Inl e, s') \<Longrightarrow> \<not> conflict e \<Longrightarrow> manageDeadlocks conflict n work s = (Inl e, s')"
  by (simp add: manageDeadlocks_def retrying_other_failure)

lemma retrying_invariant:
  "(\<And>s. I s \<Longrightarrow> I (snd (work s))) \<Longrightarrow> I s \<Longrightarrow> I (snd (retrying conflict work left s))"
proof (induction left arbitrary: s)
  case 0
  then show ?case by simp
next
  case (Suc left)
  have step: "I (snd (work s))" using Suc.prems by blast
  show ?case
  proof (cases "work s")
    case (Pair r s')
    then have s': "I s'" using step by simp
    show ?thesis
    proof (cases r)
      case (Inr v)
      then show ?thesis using Pair s' by simp
    next
      case (Inl e)
      have "I (snd (retrying conflict work left s'))" using Suc.IH Suc.prems(1) s' by blast
      then show ?thesis using Pair Inl s' by simp
    qed
  qed
qed

text \<open>
  The retry loop, in full: when the first \<open>j\<close> invocations fail with the conflict
  signature, and either the budget ends with the next invocation or that invocation
  does anything else (a success, a failure without the signature), the loop returns
  what that invocation returns.
\<close>

lemma retrying_stops:
  "\<forall>i<j. \<exists>e. fst (work (state_after work i s)) = Inl e \<and> conflict e \<Longrightarrow>
   j \<le> left \<Longrightarrow>
   j = left \<or> \<not> (\<exists>e. fst (work (state_after work j s)) = Inl e \<and> conflict e) \<Longrightarrow>
   retrying conflict work left s = work (state_after work j s)"
proof (induction j arbitrary: left s)
  case 0
  show ?case
  proof (cases left)
    case 0
    then show ?thesis by simp
  next
    case (Suc l)
    then have other: "\<not> (\<exists>e. fst (work s) = Inl e \<and> conflict e)" using "0.prems"(3) by simp
    obtain r s' where ws: "work s = (r, s')" by (cases "work s")
    show ?thesis
    proof (cases r)
      case (Inl e)
      then have "\<not> conflict e" using other ws by simp
      then show ?thesis using Suc ws Inl by simp
    next
      case (Inr v)
      then show ?thesis using Suc ws by simp
    qed
  qed
next
  case (Suc j)
  obtain l where left: "left = Suc l" using Suc.prems(2) by (cases left) simp_all
  have "\<exists>e. fst (work (state_after work 0 s)) = Inl e \<and> conflict e"
    using Suc.prems(1) by blast
  then obtain e s' where ws: "work s = (Inl e, s')" "conflict e"
    by (cases "work s") auto
  have before: "\<forall>i<j. \<exists>e. fst (work (state_after work i s')) = Inl e \<and> conflict e"
  proof (intro allI impI)
    fix i assume "i < j"
    then have "Suc i < Suc j" by simp
    then have "\<exists>e. fst (work (state_after work (Suc i) s)) = Inl e \<and> conflict e"
      using Suc.prems(1) by blast
    then show "\<exists>e. fst (work (state_after work i s')) = Inl e \<and> conflict e"
      using ws by simp
  qed
  have budget: "j \<le> l" using Suc.prems(2) left by simp
  have last: "j = l \<or> \<not> (\<exists>e. fst (work (state_after work j s')) = Inl e \<and> conflict e)"
    using Suc.prems(3) left ws by simp
  have "retrying conflict work l s' = work (state_after work j s')"
    by (rule Suc.IH [OF before budget last])
  then show ?case using left ws by simp
qed

lemma state_after_counting:
  "state_after (counting work) j (n, s) = (n + j, state_after work j s)"
  by (induction j arbitrary: n s) (simp_all add: counting_apply)

text \<open>
  C3. A unit of work that fails with the conflict signature at every invocation is
  invoked exactly three times under the budget 3, and the failure of the third
  invocation is what the executor surfaces; a failure without the conflict signature
  is surfaced as it is after the one invocation that produced it. \<^verbatim>\<open>executeDbQuery\<close>
  passes the budget 3: when its unit of work is in conflict at every attempt, the unit
  is run three times and the third failure is the result. At any attempt, not only the
  first: when the first \<open>j\<close> invocations fail with the conflict signature and the next
  one fails without it (or succeeds, or is the last of the budget), the executor
  returns what that invocation returned, after \<open>j + 1\<close> invocations in all.
\<close>

theorem manageDeadlocks_exhaustion:
  "((\<forall>s. \<exists>e s'. work s = (Inl e, s') \<and> conflict e) \<longrightarrow>
      manageDeadlocks conflict 3 work s = work (snd (work (snd (work s))))
      \<and> (\<exists>e. fst (manageDeadlocks conflict 3 work s) = Inl e \<and> conflict e)
      \<and> fst (snd (manageDeadlocks conflict 3 (counting work) (n, s))) = n + 3)
   \<and> (\<forall>e s'. work s = (Inl e, s') \<and> \<not> conflict e \<longrightarrow>
        manageDeadlocks conflict k work s = (Inl e, s')
        \<and> manageDeadlocks conflict k (counting work) (n, s) = (Inl e, Suc n, s'))
   \<and> ((\<forall>v. \<exists>e v'. attempt settled cl sql (default_params params) options v = (Inl e, v') \<and> conflict e) \<longrightarrow>
        executeDbQuery conflict settled cl sql params options w
        = attempt settled cl sql (default_params params) options
            (snd (attempt settled cl sql (default_params params) options
               (snd (attempt settled cl sql (default_params params) options w)))))
   \<and> (\<forall>j. j \<le> k - 1
          \<and> (\<forall>i<j. \<exists>e. fst (work (state_after work i s)) = Inl e \<and> conflict e)
          \<and> (j = k - 1 \<or> \<not> (\<exists>e. fst (work (state_after work j s)) = Inl e \<and> conflict e)) \<longrightarrow>
        manageDeadlocks conflict k work s = work (state_after work j s)
        \<and> manageDeadlocks conflict k (counting work) (n, s)
            = (fst (work (state_after work j s)), n + Suc j, snd (work (state_after work j s))))"
proof (intro conjI impI allI)
  assume always: "\<forall>s. \<exists>e s'. work s = (Inl e, s') \<and> conflict e"
  obtain e1 s1 where w1: "work s = (Inl e1, s1)" "conflict e1" using always by blast
  obtain e2 s2 where w2: "work s1 = (Inl e2, s2)" "conflict e2" using always by blast
  obtain e3 s3 where w3: "work s2 = (Inl e3, s3)" "conflict e3" using always by blast
  have three: "(3::nat) - 1 = Suc (Suc 0)" by simp
  show run: "manageDeadlocks conflict 3 work s = work (snd (work (snd (work s))))"
    unfolding manageDeadlocks_def three using w1 w2 by simp
  show "\<exists>e. fst (manageDeadlocks conflict 3 work s) = Inl e \<and> conflict e"
    using run w1 w2 w3 by simp
  show "fst (snd (manageDeadlocks conflict 3 (counting work) (n, s))) = n + 3"
    unfolding manageDeadlocks_def three using w1 w2 w3 by (simp add: counting_apply)
next
  fix e s'
  assume h: "work s = (Inl e, s') \<and> \<not> conflict e"
  show "manageDeadlocks conflict k work s = (Inl e, s')"
    unfolding manageDeadlocks_def using h by (simp add: retrying_other_failure)
  have "counting work (n, s) = (Inl e, Suc n, s')" using h by (simp add: counting_apply)
  then show "manageDeadlocks conflict k (counting work) (n, s) = (Inl e, Suc n, s')"
    unfolding manageDeadlocks_def using h by (simp add: retrying_other_failure)
next
  let ?unit = "attempt settled cl sql (default_params params) options"
  assume always: "\<forall>v. \<exists>e v'. ?unit v = (Inl e, v') \<and> conflict e"
  obtain e1 w1 where a1: "?unit w = (Inl e1, w1)" "conflict e1" using always by blast
  obtain e2 w2 where a2: "?unit w1 = (Inl e2, w2)" "conflict e2" using always by blast
  have three: "(3::nat) - 1 = Suc (Suc 0)" by simp
  show "executeDbQuery conflict settled cl sql params options w = ?unit (snd (?unit (snd (?unit w))))"
    unfolding executeDbQuery_def manageDeadlocks_def three using a1 a2 by simp
next
  fix j
  assume h: "j \<le> k - 1
          \<and> (\<forall>i<j. \<exists>e. fst (work (state_after work i s)) = Inl e \<and> conflict e)
          \<and> (j = k - 1 \<or> \<not> (\<exists>e. fst (work (state_after work j s)) = Inl e \<and> conflict e))"
  then have budget: "j \<le> k - 1"
    and before: "\<forall>i<j. \<exists>e. fst (work (state_after work i s)) = Inl e \<and> conflict e"
    and last: "j = k - 1 \<or> \<not> (\<exists>e. fst (work (state_after work j s)) = Inl e \<and> conflict e)"
    by blast+
  show "manageDeadlocks conflict k work s = work (state_after work j s)"
    unfolding manageDeadlocks_def by (rule retrying_stops [OF before budget last])
  have before': "\<forall>i<j. \<exists>e. fst (counting work (state_after (counting work) i (n, s))) = Inl e \<and> conflict e"
    using before by (simp add: state_after_counting counting_apply)
  have last': "j = k - 1 \<or> \<not> (\<exists>e. fst (counting work (state_after (counting work) j (n, s))) = Inl e \<and> conflict e)"
    using last by (simp add: state_after_counting counting_apply)
  have "manageDeadlocks conflict k (counting work) (n, s)
          = counting work (state_after (counting work) j (n, s))"
    unfolding manageDeadlocks_def by (rule retrying_stops [OF before' budget last'])
  then show "manageDeadlocks conflict k (counting work) (n, s)
            = (fst (work (state_after work j s)), n + Suc j, snd (work (state_after work j s)))"
    by (simp add: state_after_counting counting_apply)
qed

theorem manageDeadlocks_exhaustion_witness:
  "(\<forall>s. \<exists>e s'. busy s = (Inl e, s') \<and> is_conflict_code e)
   \<and> manageDeadlocks is_conflict_code 3 busy 0 = (Inl (deadlock_detected\<lparr>err_message := ''!!!''\<rparr>), 3)
   \<and> fst (snd (manageDeadlocks is_conflict_code 3 (counting busy) (0, 0))) = 3
   \<and> failing 0 = (Inl unique_violation, 1) \<and> \<not> is_conflict_code unique_violation
   \<and> manageDeadlocks is_conflict_code 3 failing 0 = (Inl unique_violation, 1)
   \<and> manageDeadlocks is_conflict_code 3 (counting failing) (0, 0) = (Inl unique_violation, 1, 1)
   \<and> executeDbQuery is_conflict_code [] (Some deadlocked) (Sql ''UPDATE t SET x = 1'') (JArr []) None w0
     = (Inl deadlock_detected,
        w0\<lparr>calls := [(''UPDATE t SET x = 1'', JArr []), (''UPDATE t SET x = 1'', JArr []),
                       (''UPDATE t SET x = 1'', JArr [])]\<rparr>)
   \<and> flaky 0 = (Inl deadlock_detected, 1) \<and> is_conflict_code deadlock_detected
   \<and> flaky 1 = (Inl unique_violation, 2)
   \<and> manageDeadlocks is_conflict_code 3 flaky 0 = (Inl unique_violation, 2)
   \<and> manageDeadlocks is_conflict_code 3 (counting flaky) (0, 0) = (Inl unique_violation, 2, 2)"
proof -
  let ?unit = "attempt [] (Some deadlocked) (Sql ''UPDATE t SET x = 1'') (default_params (JArr [])) None"
  have unit: "?unit v = (Inl deadlock_detected, v\<lparr>calls := calls v @ [(''UPDATE t SET x = 1'', JArr [])]\<rparr>)" for v
    by (simp add: attempt_def pg_query_def deadlocked_def default_params_def)
  have is_conflict: "is_conflict_code deadlock_detected"
    by (simp add: is_conflict_code_def deadlock_detected_def)
  have stuck: "\<forall>v. \<exists>e v'. ?unit v = (Inl e, v') \<and> is_conflict_code e"
    using unit is_conflict by blast
  note on_busy = manageDeadlocks_exhaustion [where work = busy and conflict = is_conflict_code
      and s = 0 and n = 0 and k = 3 and settled = "[]" and cl = "Some deadlocked"
      and sql = "Sql ''UPDATE t SET x = 1''" and params = "JArr []" and options = None and w = w0]
  note on_failing = manageDeadlocks_exhaustion [where work = failing and conflict = is_conflict_code
      and s = 0 and n = 0 and k = 3 and settled = "[]" and cl = "Some deadlocked"
      and sql = "Sql ''UPDATE t SET x = 1''" and params = "JArr []" and options = None and w = w0]
  have thrice: "executeDbQuery is_conflict_code [] (Some deadlocked) (Sql ''UPDATE t SET x = 1'') (JArr []) None w0
                  = ?unit (snd (?unit (snd (?unit w0))))"
    using stuck on_busy by blast
  have run: "executeDbQuery is_conflict_code [] (Some deadlocked) (Sql ''UPDATE t SET x = 1'') (JArr []) None w0
     = (Inl deadlock_detected,
        w0\<lparr>calls := [(''UPDATE t SET x = 1'', JArr []), (''UPDATE t SET x = 1'', JArr []),
                       (''UPDATE t SET x = 1'', JArr [])]\<rparr>)"
    unfolding thrice unit by (simp add: w0_def)
  have always: "\<forall>s. \<exists>e s'. busy s = (Inl e, s') \<and> is_conflict_code e"
    by (simp add: busy_def is_conflict_code_def deadlock_detected_def)
  have other: "failing 0 = (Inl unique_violation, 1) \<and> \<not> is_conflict_code unique_violation"
    by (simp add: failing_def is_conflict_code_def unique_violation_def)
  have counted: "manageDeadlocks is_conflict_code 3 busy 0 = (Inl (deadlock_detected\<lparr>err_message := ''!!!''\<rparr>), 3)
   \<and> fst (snd (manageDeadlocks is_conflict_code 3 (counting busy) (0, 0))) = 3
   \<and> manageDeadlocks is_conflict_code 3 failing 0 = (Inl unique_violation, 1)
   \<and> manageDeadlocks is_conflict_code 3 (counting failing) (0, 0) = (Inl unique_violation, 1, 1)"
    using always other on_busy on_failing
    by (simp add: busy_def)
  note on_flaky = manageDeadlocks_exhaustion [where work = flaky and conflict = is_conflict_code
      and s = 0 and n = 0 and k = 3 and settled = "[]" and cl = "Some deadlocked"
      and sql = "Sql ''UPDATE t SET x = 1''" and params = "JArr []" and options = None and w = w0]
  have first: "flaky 0 = (Inl deadlock_detected, 1) \<and> is_conflict_code deadlock_detected"
    by (simp add: flaky_def is_conflict)
  have second: "flaky 1 = (Inl unique_violation, 2)"
    by (simp add: flaky_def)
  have budget: "Suc 0 \<le> (3::nat) - 1" by simp
  have before: "\<forall>i<Suc 0. \<exists>e. fst (flaky (state_after flaky i 0)) = Inl e \<and> is_conflict_code e"
    using first by simp
  have at: "state_after flaky (Suc 0) 0 = 1" by (simp add: flaky_def)
  have last: "Suc 0 = (3::nat) - 1
              \<or> \<not> (\<exists>e. fst (flaky (state_after flaky (Suc 0) 0)) = Inl e \<and> is_conflict_code e)"
    unfolding at second using other by simp
  have "manageDeadlocks is_conflict_code 3 flaky 0 = flaky (state_after flaky (Suc 0) 0)
        \<and> manageDeadlocks is_conflict_code 3 (counting flaky) (0, 0)
            = (fst (flaky (state_after flaky (Suc 0) 0)), 0 + Suc (Suc 0), snd (flaky (state_after flaky (Suc 0) 0)))"
    using on_flaky budget before last by blast
  then have stopped: "manageDeadlocks is_conflict_code 3 flaky 0 = (Inl unique_violation, 2)
        \<and> manageDeadlocks is_conflict_code 3 (counting flaky) (0, 0) = (Inl unique_violation, 2, 2)"
    unfolding at second by simp
  show ?thesis using always other counted run first second stopped by blast
qed

section \<open>The query runner: calls and answers\<close>

lemma paired_zip: "k + length ss \<le> length ps \<Longrightarrow> paired ss ps k = zip ss (drop k ps)"
proof (induction ss arbitrary: k)
  case Nil
  then show ?case by simp
next
  case (Cons s ss)
  then have k: "k < length ps" by simp
  have "paired ss ps (Suc k) = zip ss (drop (Suc k) ps)" using Cons by simp
  moreover have "drop k ps = ps ! k # drop (Suc k) ps" using k by (simp add: Cons_nth_drop_Suc)
  ultimately show ?case using k by (simp add: at_index_def)
qed

lemma paired_zip0: "length ss = length ps \<Longrightarrow> paired ss ps 0 = zip ss ps"
  using paired_zip [of 0 ss ps] by simp

lemma length_answers [simp]: "length (answers c h cs) = length cs"
  by (induction cs arbitrary: h) simp_all

lemma nth_answers:
  "j < length cs \<Longrightarrow> answers c h cs ! j = client_query c (h @ take j cs) (cs ! j)"
proof (induction cs arbitrary: h j)
  case Nil
  then show ?case by simp
next
  case (Cons x xs)
  show ?case
  proof (cases j)
    case 0
    then show ?thesis by simp
  next
    case (Suc j')
    then have "j' < length xs" using Cons.prems by simp
    then show ?thesis using Cons.IH [of j' "h @ [x]"] Suc by simp
  qed
qed

lemma dispatch_answers:
  "dispatch c ss ps k w = (answers c (calls w) (paired ss ps k), w\<lparr>calls := calls w @ paired ss ps k\<rparr>)"
proof (induction ss arbitrary: k w)
  case Nil
  then show ?case by simp
next
  case (Cons s ss)
  show ?case by (simp add: Cons.IH pg_query_def)
qed

lemma Promise_all_fulfilled:
  assumes "\<forall>j<length outcomes. \<not> isl (outcomes ! j)"
  shows "Promise_all settled outcomes = Inr (map projr outcomes)"
proof -
  have "filter (\<lambda>k. k < length outcomes \<and> isl (outcomes ! k)) (settled @ [0..<length outcomes]) = []"
    using assms by (auto simp: filter_empty_conv)
  then show ?thesis by (simp add: Promise_all_def)
qed

lemma sequentially_run_calls:
  "sequentially c ss ps k acc w = run_calls c (paired (drop k ss) ps k) acc w"
proof (induction c ss ps k acc w rule: sequentially.induct)
  case (1 c ss ps i queryResult w)
  show ?case
  proof (cases "i < length ss")
    case False
    then show ?thesis by (simp add: sequentially.simps)
  next
    case True
    then have d: "drop i ss = ss ! i # drop (Suc i) ss" by (simp add: Cons_nth_drop_Suc)
    show ?thesis
    proof (cases "client_query c (calls w) (ss ! i, at_index ps i)")
      case (Inl e)
      then show ?thesis using True d
        by (simp add: sequentially.simps [of c ss ps i] pg_query_def)
    next
      case (Inr r)
      have "sequentially c ss ps (Suc i) (queryResult @ [r]) (w\<lparr>calls := calls w @ [(ss ! i, at_index ps i)]\<rparr>)
            = run_calls c (paired (drop (Suc i) ss) ps (Suc i)) (queryResult @ [r]) (w\<lparr>calls := calls w @ [(ss ! i, at_index ps i)]\<rparr>)"
        using "1.IH" [OF True, of "Inr r" "w\<lparr>calls := calls w @ [(ss ! i, at_index ps i)]\<rparr>" r] Inr
        by (simp add: pg_query_def)
      then show ?thesis using True d Inr
        by (simp add: sequentially.simps [of c ss ps i] pg_query_def)
    qed
  qed
qed

lemma run_calls_failure:
  "i < length cs \<Longrightarrow>
   \<forall>j<i. \<not> isl (client_query c (calls w @ take j cs) (cs ! j)) \<Longrightarrow>
   client_query c (calls w @ take i cs) (cs ! i) = Inl e \<Longrightarrow>
   run_calls c cs acc w = (Inl e, w\<lparr>calls := calls w @ take (Suc i) cs\<rparr>)"
proof (induction cs arbitrary: i acc w)
  case Nil
  then show ?case by simp
next
  case (Cons x xs)
  show ?case
  proof (cases i)
    case 0
    then show ?thesis using Cons.prems by simp
  next
    case (Suc i')
    let ?w = "w\<lparr>calls := calls w @ [x]\<rparr>"
    have first: "\<not> isl (client_query c (calls w) x)"
      using Cons.prems(2) Suc by (auto dest: spec [of _ 0])
    then obtain r where r: "client_query c (calls w) x = Inr r"
      by (cases "client_query c (calls w) x") simp_all
    have len: "i' < length xs" using Cons.prems(1) Suc by simp
    have before: "\<forall>j<i'. \<not> isl (client_query c (calls ?w @ take j xs) (xs ! j))"
    proof (intro allI impI)
      fix j assume "j < i'"
      then have "Suc j < i" using Suc by simp
      then show "\<not> isl (client_query c (calls ?w @ take j xs) (xs ! j))"
        using Cons.prems(2) by (auto dest: spec [of _ "Suc j"])
    qed
    have at: "client_query c (calls ?w @ take i' xs) (xs ! i') = Inl e"
      using Cons.prems(3) Suc by simp
    have "run_calls c xs (acc @ [r]) ?w = (Inl e, ?w\<lparr>calls := calls ?w @ take (Suc i') xs\<rparr>)"
      by (rule Cons.IH [OF len before at])
    then show ?thesis using r Suc by simp
  qed
qed

lemma run_calls_success:
  "\<forall>j<length cs. \<not> isl (client_query c (calls w @ take j cs) (cs ! j)) \<Longrightarrow>
   run_calls c cs acc w = (Inr (acc @ map projr (answers c (calls w) cs)), w\<lparr>calls := calls w @ cs\<rparr>)"
proof (induction cs arbitrary: acc w)
  case Nil
  then show ?case by simp
next
  case (Cons x xs)
  let ?w = "w\<lparr>calls := calls w @ [x]\<rparr>"
  have first: "\<not> isl (client_query c (calls w) x)"
    using Cons.prems by (auto dest: spec [of _ 0])
  then obtain r where r: "client_query c (calls w) x = Inr r"
    by (cases "client_query c (calls w) x") simp_all
  have rest: "\<forall>j<length xs. \<not> isl (client_query c (calls ?w @ take j xs) (xs ! j))"
  proof (intro allI impI)
    fix j assume "j < length xs"
    then have "Suc j < length (x # xs)" by simp
    then show "\<not> isl (client_query c (calls ?w @ take j xs) (xs ! j))"
      using Cons.prems by (auto dest: spec [of _ "Suc j"])
  qed
  show ?case using Cons.IH [OF rest, of "acc @ [r]"] r by simp
qed

lemma default_params_array [simp]: "default_params (JArr ps) = JArr ps"
  by (simp add: default_params_def)

lemma attempt_sequential:
  "length ss = length ps \<Longrightarrow> \<not> wants_parallel options \<Longrightarrow>
   attempt settled (Some c) (Sqls ss) (JArr ps) options w =
     (case run_calls c (zip ss ps) [] w of
        (Inl e, w') \<Rightarrow> (Inl e, w')
      | (Inr rs, w') \<Rightarrow> (Inr (Several rs), w'))"
  by (simp add: attempt_def sequentially_run_calls paired_zip0)

lemma attempt_parallel:
  "length ss = length ps \<Longrightarrow> wants_parallel options \<Longrightarrow>
   attempt settled (Some c) (Sqls ss) (JArr ps) options w =
     (case Promise_all settled (answers c (calls w) (zip ss ps)) of
        Inl e \<Rightarrow> (Inl e, w\<lparr>calls := calls w @ zip ss ps\<rparr>)
      | Inr rs \<Rightarrow> (Inr (Several rs), w\<lparr>calls := calls w @ zip ss ps\<rparr>))"
  by (simp add: attempt_def dispatch_answers paired_zip0)

lemma run_calls_refs: "refs_drawn (snd (run_calls c cs acc w)) = refs_drawn w"
  by (induction cs arbitrary: acc w) (simp_all split: sum.splits)

lemma dispatch_refs: "refs_drawn (snd (dispatch c ss ps k w)) = refs_drawn w"
  by (simp add: dispatch_answers)

lemma sequentially_refs: "refs_drawn (snd (sequentially c ss ps k acc w)) = refs_drawn w"
  by (simp add: sequentially_run_calls run_calls_refs)

lemma attempt_refs: "refs_drawn (snd (attempt settled cl sql params options w)) = refs_drawn w"
proof (cases cl)
  case None
  then show ?thesis by (simp add: attempt_def)
next
  case (Some c)
  show ?thesis
  proof (cases sql)
    case (Sql s)
    then show ?thesis using Some
      by (simp add: attempt_def pg_query_def split: sum.splits)
  next
    case (Sqls ss)
    have par: "refs_drawn (snd (case dispatch c ss ps 0 w of
                       (promises, w') \<Rightarrow>
                         (case Promise_all settled promises of
                            Inl e \<Rightarrow> (Inl e, w')
                          | Inr rs \<Rightarrow> (Inr (Several rs), w')))) = refs_drawn w" for ps
      using dispatch_refs [of c ss ps 0 w]
      by (cases "dispatch c ss ps 0 w") (simp split: sum.splits)
    have seq: "refs_drawn (snd (case sequentially c ss ps 0 [] w of
                       (Inl e, w') \<Rightarrow> (Inl e, w')
                     | (Inr rs, w') \<Rightarrow> (Inr (Several rs), w'))) = refs_drawn w" for ps
      using sequentially_refs [of c ss ps 0 "[]" w]
      by (cases "sequentially c ss ps 0 [] w") (simp split: sum.splits)
    show ?thesis using Some Sqls par seq
      by (simp add: attempt_def)
  qed
qed

lemma executeDbQuery_refs:
  "refs_drawn (snd (executeDbQuery conflict settled cl sql params options w)) = refs_drawn w"
  unfolding executeDbQuery_def manageDeadlocks_def
  by (rule retrying_invariant [where I = "\<lambda>s. refs_drawn s = refs_drawn w"]) (simp_all add: attempt_refs)

lemma executeDbQuery_no_client:
  "executeDbQuery conflict settled None sql params options w = (Inl (DatabaseError NO_CLIENT None), w)"
  by (simp add: executeDbQuery_def manageDeadlocks_def attempt_def retrying_stuck)

lemma executeDbQuery_mismatch:
  "\<not> isArray (default_params params) \<or> length ss \<noteq> length (elements (default_params params)) \<Longrightarrow>
   executeDbQuery conflict settled (Some c) (Sqls ss) params options w
     = (Inl (DatabaseError ''Mismatched SQL queries and parameters.'' None), w)"
  unfolding executeDbQuery_def manageDeadlocks_def
  by (rule retrying_stuck) (auto simp: attempt_def)

text \<open>
  C4. With \<^verbatim>\<open>parallel\<close> off, the statements of a multi-statement request are issued in
  input order, each seeing the answers to those before it. When statement \<open>i\<close> is the
  first to fail, the calls issued are exactly those of the statements up to \<open>i\<close>, none
  after it and no other command, and the error thrown by the runner is that
  statement's error; \<^verbatim>\<open>executeDbQuery\<close> surfaces it as it is when it does not carry the
  conflict signature. When no statement fails, every statement is issued once, in
  input order, and the results come back by position.
\<close>

theorem sequential_stops_at_first_failure:
  assumes "length ss = length ps" and "\<not> wants_parallel options"
  shows "(\<forall>i e. i < length ss
            \<and> (\<forall>j<i. \<not> isl (client_query c (calls w @ take j (zip ss ps)) (ss ! j, ps ! j)))
            \<and> client_query c (calls w @ take i (zip ss ps)) (ss ! i, ps ! i) = Inl e
          \<longrightarrow> attempt settled (Some c) (Sqls ss) (JArr ps) options w
                = (Inl e, w\<lparr>calls := calls w @ take (Suc i) (zip ss ps)\<rparr>)
              \<and> (\<not> conflict e \<longrightarrow>
                   executeDbQuery conflict settled (Some c) (Sqls ss) (JArr ps) options w
                   = (Inl e, w\<lparr>calls := calls w @ take (Suc i) (zip ss ps)\<rparr>)))
       \<and> ((\<forall>j<length ss. \<not> isl (client_query c (calls w @ take j (zip ss ps)) (ss ! j, ps ! j)))
          \<longrightarrow> (\<exists>rs. executeDbQuery conflict settled (Some c) (Sqls ss) (JArr ps) options w
                       = (Inr (Several rs), w\<lparr>calls := calls w @ zip ss ps\<rparr>)
                   \<and> length rs = length ss
                   \<and> (\<forall>j<length ss. client_query c (calls w @ take j (zip ss ps)) (ss ! j, ps ! j) = Inr (rs ! j))))"
proof (intro conjI allI impI)
  fix i e
  assume h: "i < length ss
            \<and> (\<forall>j<i. \<not> isl (client_query c (calls w @ take j (zip ss ps)) (ss ! j, ps ! j)))
            \<and> client_query c (calls w @ take i (zip ss ps)) (ss ! i, ps ! i) = Inl e"
  let ?cs = "zip ss ps"
  have len: "i < length ?cs" using h assms(1) by simp
  have before: "\<forall>j<i. \<not> isl (client_query c (calls w @ take j ?cs) (?cs ! j))"
    using h assms(1) by simp
  have at: "client_query c (calls w @ take i ?cs) (?cs ! i) = Inl e"
    using h assms(1) by simp
  have "run_calls c ?cs [] w = (Inl e, w\<lparr>calls := calls w @ take (Suc i) ?cs\<rparr>)"
    by (rule run_calls_failure [OF len before at])
  then show a: "attempt settled (Some c) (Sqls ss) (JArr ps) options w
                = (Inl e, w\<lparr>calls := calls w @ take (Suc i) ?cs\<rparr>)"
    using assms by (simp add: attempt_sequential)
  assume "\<not> conflict e"
  then show "executeDbQuery conflict settled (Some c) (Sqls ss) (JArr ps) options w
               = (Inl e, w\<lparr>calls := calls w @ take (Suc i) ?cs\<rparr>)"
    using a by (simp add: executeDbQuery_def manageDeadlocks_other_failure)
next
  let ?cs = "zip ss ps"
  let ?rs = "map projr (answers c (calls w) ?cs)"
  assume ok: "\<forall>j<length ss. \<not> isl (client_query c (calls w @ take j ?cs) (ss ! j, ps ! j))"
  then have ok': "\<forall>j<length ?cs. \<not> isl (client_query c (calls w @ take j ?cs) (?cs ! j))"
    using assms(1) by simp
  have "run_calls c ?cs [] w = (Inr ([] @ ?rs), w\<lparr>calls := calls w @ ?cs\<rparr>)"
    by (rule run_calls_success [OF ok'])
  then have "attempt settled (Some c) (Sqls ss) (JArr ps) options w
               = (Inr (Several ?rs), w\<lparr>calls := calls w @ ?cs\<rparr>)"
    using assms by (simp add: attempt_sequential)
  then have run: "executeDbQuery conflict settled (Some c) (Sqls ss) (JArr ps) options w
               = (Inr (Several ?rs), w\<lparr>calls := calls w @ ?cs\<rparr>)"
    by (simp add: executeDbQuery_def manageDeadlocks_success)
  have each: "\<forall>j<length ss. client_query c (calls w @ take j ?cs) (ss ! j, ps ! j) = Inr (?rs ! j)"
  proof (intro allI impI)
    fix j assume j: "j < length ss"
    then have "\<not> isl (client_query c (calls w @ take j ?cs) (ss ! j, ps ! j))" using ok by simp
    moreover have "?rs ! j = projr (client_query c (calls w @ take j ?cs) (ss ! j, ps ! j))"
      using j assms(1) by (simp add: nth_answers)
    ultimately show "client_query c (calls w @ take j ?cs) (ss ! j, ps ! j) = Inr (?rs ! j)"
      by (cases "client_query c (calls w @ take j ?cs) (ss ! j, ps ! j)") simp_all
  qed
  show "\<exists>rs. executeDbQuery conflict settled (Some c) (Sqls ss) (JArr ps) options w
                = (Inr (Several rs), w\<lparr>calls := calls w @ ?cs\<rparr>)
            \<and> length rs = length ss
            \<and> (\<forall>j<length ss. client_query c (calls w @ take j ?cs) (ss ! j, ps ! j) = Inr (rs ! j))"
    using run each assms(1) by (intro exI [of _ ?rs]) simp
qed

theorem sequential_stops_at_first_failure_witness:
  "attempt [] (Some (rejecting ''S2'')) (Sqls [''S1'', ''S2'', ''S3'']) (JArr [JArr [], JArr [], JArr []]) None w0
     = (Inl syntax_error, w0\<lparr>calls := [(''S1'', JArr []), (''S2'', JArr [])]\<rparr>)
   \<and> executeDbQuery is_conflict_code [] (Some (rejecting ''S2'')) (Sqls [''S1'', ''S2'', ''S3'']) (JArr [JArr [], JArr [], JArr []]) None w0
     = (Inl syntax_error, w0\<lparr>calls := [(''S1'', JArr []), (''S2'', JArr [])]\<rparr>)
   \<and> executeDbQuery is_conflict_code [] (Some healthy) (Sqls [''S1'', ''S2'', ''S3'']) (JArr [JArr [], JArr [], JArr []]) None w0
     = (Inr (Several [''S1'', ''S2'', ''S3'']), w0\<lparr>calls := [(''S1'', JArr []), (''S2'', JArr []), (''S3'', JArr [])]\<rparr>)"
proof -
  let ?ss = "[''S1'', ''S2'', ''S3'']"
  let ?ps = "[JArr [], JArr [], JArr []]"
  have len: "length ?ss = length ?ps" by simp
  have seq: "\<not> wants_parallel None" by (simp add: wants_parallel_def)
  have bad: "(1::nat) < length ?ss
       \<and> (\<forall>j<1. \<not> isl (client_query (rejecting ''S2'') (calls w0 @ take j (zip ?ss ?ps)) (?ss ! j, ?ps ! j)))
       \<and> client_query (rejecting ''S2'') (calls w0 @ take 1 (zip ?ss ?ps)) (?ss ! 1, ?ps ! 1) = Inl syntax_error"
    by (simp add: rejecting_def)
  have quiet: "\<not> is_conflict_code syntax_error"
    by (simp add: is_conflict_code_def syntax_error_def)
  have good: "\<forall>j<length ?ss. \<not> isl (client_query healthy (calls w0 @ take j (zip ?ss ?ps)) (?ss ! j, ?ps ! j))"
    by (simp add: healthy_def)
  note a = sequential_stops_at_first_failure [OF len seq, of "rejecting ''S2''" w0 "[]" is_conflict_code]
  note b = sequential_stops_at_first_failure [OF len seq, of healthy w0 "[]" is_conflict_code]
  from a bad quiet have 1: "attempt [] (Some (rejecting ''S2'')) (Sqls ?ss) (JArr ?ps) None w0
     = (Inl syntax_error, w0\<lparr>calls := calls w0 @ take (Suc 1) (zip ?ss ?ps)\<rparr>)
   \<and> executeDbQuery is_conflict_code [] (Some (rejecting ''S2'')) (Sqls ?ss) (JArr ?ps) None w0
     = (Inl syntax_error, w0\<lparr>calls := calls w0 @ take (Suc 1) (zip ?ss ?ps)\<rparr>)"
    by blast
  from b good obtain rs where rs: "executeDbQuery is_conflict_code [] (Some healthy) (Sqls ?ss) (JArr ?ps) None w0
                       = (Inr (Several rs), w0\<lparr>calls := calls w0 @ zip ?ss ?ps\<rparr>)"
       "length rs = length ?ss"
       "\<forall>j<length ?ss. client_query healthy (calls w0 @ take j (zip ?ss ?ps)) (?ss ! j, ?ps ! j) = Inr (rs ! j)"
    by blast
  have "rs = ?ss"
  proof (rule nth_equalityI)
    show "length rs = length ?ss" by (rule rs(2))
  next
    fix i assume "i < length rs"
    then have i: "i < length ?ss" using rs(2) by simp
    have "client_query healthy (calls w0 @ take i (zip ?ss ?ps)) (?ss ! i, ?ps ! i) = Inr (rs ! i)"
      using rs(3) i by blast
    then show "rs ! i = ?ss ! i" by (simp add: healthy_def)
  qed
  then show ?thesis using 1 rs(1) by (simp add: w0_def)
qed

text \<open>
  C5. With \<^verbatim>\<open>parallel\<close> on and every statement succeeding, \<^verbatim>\<open>executeDbQuery\<close> returns one
  result per statement, the result at each position being the answer to the statement
  at that position, whatever the order in which the promises settle.
\<close>

theorem parallel_results_in_input_order:
  assumes "length ss = length ps" and "wants_parallel options"
    and "\<forall>j<length ss. \<not> isl (client_query c (calls w @ take j (zip ss ps)) (ss ! j, ps ! j))"
  shows "\<exists>rs. (\<forall>settled. executeDbQuery conflict settled (Some c) (Sqls ss) (JArr ps) options w
                    = (Inr (Several rs), w\<lparr>calls := calls w @ zip ss ps\<rparr>))
             \<and> length rs = length ss
             \<and> (\<forall>j<length ss. client_query c (calls w @ take j (zip ss ps)) (ss ! j, ps ! j) = Inr (rs ! j))"
proof -
  let ?cs = "zip ss ps"
  let ?as = "answers c (calls w) ?cs"
  let ?rs = "map projr ?as"
  have ok: "\<forall>j<length ?as. \<not> isl (?as ! j)"
    using assms(1,3) by (simp add: nth_answers)
  have run: "executeDbQuery conflict settled (Some c) (Sqls ss) (JArr ps) options w
               = (Inr (Several ?rs), w\<lparr>calls := calls w @ ?cs\<rparr>)" for settled
  proof -
    have "Promise_all settled ?as = Inr ?rs" by (rule Promise_all_fulfilled [OF ok])
    then have "attempt settled (Some c) (Sqls ss) (JArr ps) options w
               = (Inr (Several ?rs), w\<lparr>calls := calls w @ ?cs\<rparr>)"
      using assms(1,2) by (simp add: attempt_parallel)
    then show ?thesis by (simp add: executeDbQuery_def manageDeadlocks_success)
  qed
  have each: "\<forall>j<length ss. client_query c (calls w @ take j ?cs) (ss ! j, ps ! j) = Inr (?rs ! j)"
  proof (intro allI impI)
    fix j assume j: "j < length ss"
    then have "\<not> isl (client_query c (calls w @ take j ?cs) (ss ! j, ps ! j))" using assms(3) by simp
    moreover have "?rs ! j = projr (client_query c (calls w @ take j ?cs) (ss ! j, ps ! j))"
      using j assms(1) by (simp add: nth_answers)
    ultimately show "client_query c (calls w @ take j ?cs) (ss ! j, ps ! j) = Inr (?rs ! j)"
      by (cases "client_query c (calls w @ take j ?cs) (ss ! j, ps ! j)") simp_all
  qed
  show ?thesis using run each assms(1) by (intro exI [of _ ?rs]) simp
qed

theorem parallel_results_in_input_order_witness:
  "(\<forall>settled. executeDbQuery is_conflict_code settled (Some healthy) (Sqls [''S1'', ''S2'']) (JArr [JArr [], JArr []]) parallel_on w0
     = (Inr (Several [''S1'', ''S2'']), w0\<lparr>calls := [(''S1'', JArr []), (''S2'', JArr [])]\<rparr>))
   \<and> executeDbQuery is_conflict_code [1, 0] (Some healthy) (Sqls [''S1'', ''S2'']) (JArr [JArr [], JArr []]) parallel_on w0
     = executeDbQuery is_conflict_code [0, 1] (Some healthy) (Sqls [''S1'', ''S2'']) (JArr [JArr [], JArr []]) parallel_on w0"
proof -
  let ?ss = "[''S1'', ''S2'']"
  let ?ps = "[JArr [], JArr []]"
  have len: "length ?ss = length ?ps" by simp
  have par: "wants_parallel parallel_on" by (simp add: wants_parallel_def parallel_on_def)
  have good: "\<forall>j<length ?ss. \<not> isl (client_query healthy (calls w0 @ take j (zip ?ss ?ps)) (?ss ! j, ?ps ! j))"
    by (simp add: healthy_def)
  from parallel_results_in_input_order [OF len par good, of is_conflict_code]
  obtain rs where rs: "\<forall>settled. executeDbQuery is_conflict_code settled (Some healthy) (Sqls ?ss) (JArr ?ps) parallel_on w0
                       = (Inr (Several rs), w0\<lparr>calls := calls w0 @ zip ?ss ?ps\<rparr>)"
       "length rs = length ?ss"
       "\<forall>j<length ?ss. client_query healthy (calls w0 @ take j (zip ?ss ?ps)) (?ss ! j, ?ps ! j) = Inr (rs ! j)"
    by blast
  have "rs = ?ss"
  proof (rule nth_equalityI)
    show "length rs = length ?ss" by (rule rs(2))
  next
    fix i assume "i < length rs"
    then have i: "i < length ?ss" using rs(2) by simp
    have "client_query healthy (calls w0 @ take i (zip ?ss ?ps)) (?ss ! i, ?ps ! i) = Inr (rs ! i)"
      using rs(3) i by blast
    then show "rs ! i = ?ss ! i" by (simp add: healthy_def)
  qed
  then show ?thesis using rs(1) by (simp add: w0_def)
qed

text \<open>
  C6 (amended). A multi-statement request whose parameters are not an array of the
  same length fails with a \<^verbatim>\<open>DatabaseError\<close> and issues no call to the connection handle;
  the error is the one of mismatched statements and parameters when a handle is bound,
  and the one of the missing connection, whose test comes first, when none is.
\<close>

theorem mismatch_never_reaches_connection:
  assumes "\<not> isArray (default_params params) \<or> length ss \<noteq> length (elements (default_params params))"
  shows "executeDbQuery conflict settled cl (Sqls ss) params options w
         = (Inl (DatabaseError (if cl = None then NO_CLIENT
                                else ''Mismatched SQL queries and parameters.'') None), w)"
proof (cases cl)
  case None
  then show ?thesis by (simp add: executeDbQuery_no_client)
next
  case (Some c)
  then show ?thesis using executeDbQuery_mismatch [OF assms] by simp
qed

theorem mismatch_witness:
  "executeDbQuery is_conflict_code [] (Some healthy) (Sqls [''SELECT 1'', ''SELECT 2'']) (JArr [JArr []]) None w0
     = (Inl (DatabaseError ''Mismatched SQL queries and parameters.'' None), w0)
   \<and> calls w0 = []"
  using mismatch_never_reaches_connection [of "JArr [JArr []]" "[''SELECT 1'', ''SELECT 2'']" is_conflict_code "[]" "Some healthy" None w0]
  by (simp add: w0_def)

text \<open>
  C6, as stated, fails without a handle: the request is rejected before the lengths
  are compared, with the error of the missing connection.
\<close>

theorem mismatch_counterexample:
  "attempt [] (None :: string PoolClient option) (Sqls [''SELECT 1'']) (JArr []) None w0
     = (Inl (DatabaseError NO_CLIENT None), w0)
   \<and> executeDbQuery (\<lambda>e. False) [] (None :: string PoolClient option) (Sqls [''SELECT 1'']) (JArr []) None w0
     = (Inl (DatabaseError NO_CLIENT None), w0)
   \<and> err_message (DatabaseError NO_CLIENT None) \<noteq> ''Mismatched SQL queries and parameters.''"
  by (simp add: executeDbQuery_no_client attempt_def DatabaseError_def NO_CLIENT_def)

text \<open>
  C9. On a session that holds no handle, \<^verbatim>\<open>releaseConnection\<close> issues no release, but it
  does not return silently: the guard's error carries the default code, not
  \<^verbatim>\<open>CONN_NOT_INIT\<close>, so the \<^verbatim>\<open>catch\<close> wraps and rethrows it.
\<close>

theorem releaseConnection_without_client_throws:
  "releaseConnection initializeDatabase w = (Inl (DatabaseError NO_CLIENT (Some ''DB_ERR'')), w)"
  by (simp add: releaseConnection_def initializeDatabase_def release_catch_def DatabaseError_def)

section \<open>The transaction methods: outcomes and state\<close>

lemma rewrap_class:
  "err_class (rewrap e) = (if err_class e = DatabaseErrorC \<or> err_class e = TransactionErrorC
                           then TransactionErrorC else err_class e)"
  by (simp add: rewrap_def TransactionError_def)

lemma rewrap_other:
  "err_class e \<noteq> DatabaseErrorC \<Longrightarrow> err_class e \<noteq> TransactionErrorC \<Longrightarrow> rewrap e = e"
  by (simp add: rewrap_def)

lemma commit_catch_class: "err_class (commit_catch e) = TransactionErrorC"
  by (simp add: commit_catch_def TransactionError_def)

lemma init_result:
  "init t w =
     (case client t of
        None \<Rightarrow> (Inl (rewrap (DatabaseError NO_CLIENT None)), t, w)
      | Some c \<Rightarrow>
          (case client_query c (calls w) (''BEGIN'', JUndefined) of
             Inl e \<Rightarrow> (Inl (rewrap e), t, w\<lparr>calls := calls w @ [(''BEGIN'', JUndefined)]\<rparr>)
           | Inr r \<Rightarrow> (Inr (), t, w\<lparr>calls := calls w @ [(''BEGIN'', JUndefined)]\<rparr>)))"
  by (simp add: init_def pg_query_def split: option.splits sum.splits)

lemma commit_result:
  "commit t w =
     (case client t of
        None \<Rightarrow> (Inl (commit_catch (DatabaseError NO_CLIENT None)), t, w)
      | Some c \<Rightarrow>
          (case client_query c (calls w) (''COMMIT'', JUndefined) of
             Inl e \<Rightarrow> (Inl (commit_catch e), t, w\<lparr>calls := calls w @ [(''COMMIT'', JUndefined)]\<rparr>)
           | Inr r \<Rightarrow> (Inr (), t, w\<lparr>calls := calls w @ [(''COMMIT'', JUndefined)]\<rparr>)))"
  by (simp add: commit_def pg_query_def split: option.splits sum.splits)

lemma query_failure:
  "executeDbQuery conflict settled (client t) sql (default_params params) options w = (Inl e, w') \<Longrightarrow>
   query conflict gen settled t sql params options w = (Inl (rewrap e), t, w')"
  by (simp add: query_def)

lemma query_success:
  "executeDbQuery conflict settled (client t) sql (default_params params) options w = (Inr r, w') \<Longrightarrow>
   query conflict gen settled t sql params options w
     = (Inr r, t\<lparr>timestamp_var := Some (ref_timestamp (gen (refs_drawn w))),
                 uuid := Some (ref_uuid (gen (refs_drawn w)))\<rparr>,
        w'\<lparr>refs_drawn := Suc (refs_drawn w)\<rparr>)"
  using executeDbQuery_refs [of conflict settled "client t" sql "default_params params" options w]
  by (simp add: query_def Let_def)

lemma init_state: "fst (snd (init t w)) = t"
  by (simp add: init_result split: option.splits sum.splits)

lemma commit_state: "fst (snd (commit t w)) = t"
  by (simp add: commit_result split: option.splits sum.splits)

lemma rollback_state: "fst (snd (rollback t w)) = t"
  by (simp add: rollback_def pg_query_def split: option.splits sum.splits)

lemma init_success_client: "init t w = (Inr u, t', w') \<Longrightarrow> client t \<noteq> None \<and> t' = t \<and> refs_drawn w' = refs_drawn w"
  by (auto simp: init_result split: option.splits sum.splits)

lemma query_cases:
  "query conflict gen settled t sql params options w = (Inl e, t', w') \<Longrightarrow> t' = t"
  "query conflict gen settled t sql params options w = (Inr r, t', w') \<Longrightarrow>
     t' = t\<lparr>timestamp_var := Some (ref_timestamp (gen (refs_drawn w))),
            uuid := Some (ref_uuid (gen (refs_drawn w)))\<rparr> \<and> refs_drawn w' = Suc (refs_drawn w)"
proof -
  obtain x w1 where run: "executeDbQuery conflict settled (client t) sql (default_params params) options w = (x, w1)"
    by (cases "executeDbQuery conflict settled (client t) sql (default_params params) options w")
  show "query conflict gen settled t sql params options w = (Inl e, t', w') \<Longrightarrow> t' = t"
    using run by (cases x) (auto simp: query_failure query_success)
  show "query conflict gen settled t sql params options w = (Inr r, t', w') \<Longrightarrow>
     t' = t\<lparr>timestamp_var := Some (ref_timestamp (gen (refs_drawn w))),
            uuid := Some (ref_uuid (gen (refs_drawn w)))\<rparr> \<and> refs_drawn w' = Suc (refs_drawn w)"
    using run by (cases x) (auto simp: query_failure query_success)
qed

lemma query_client: "client (fst (snd (query conflict gen settled t sql params options w))) = client t"
  by (simp add: query_def Let_def split: prod.splits sum.splits)

lemma invoke_client: "client (fst (snd (invoke conflict gen settled m t w))) = client t"
proof (cases m)
  case Init
  then show ?thesis by (simp add: init_state)
next
  case (Query sql params options)
  have "fst (snd (invoke conflict gen settled (Query sql params options) t w))
          = fst (snd (query conflict gen settled t sql params options w))"
    by (simp split: prod.splits sum.splits)
  then show ?thesis using Query by (simp add: query_client)
next
  case Commit
  then show ?thesis by (simp add: commit_state)
next
  case Rollback
  then show ?thesis by (simp add: rollback_state)
qed

lemma invoke_all_client: "client (fst (invoke_all conflict gen settled ms t w)) = client t"
proof (induction ms arbitrary: t w)
  case Nil
  then show ?case by simp
next
  case (Cons m ms)
  obtain outcome t' w' where step: "invoke conflict gen settled m t w = (outcome, t', w')"
    by (cases "invoke conflict gen settled m t w")
  then have "client t' = client t" using invoke_client [of conflict gen settled m t w] by simp
  then show ?case using step Cons.IH [of t' w'] by simp
qed

lemma invoke_no_client:
  assumes "client t = None"
  shows "calls (snd (snd (invoke conflict gen settled m t w))) = calls w"
proof (cases m)
  case Init
  then show ?thesis using assms by (simp add: init_result)
next
  case (Query sql params options)
  have "query conflict gen settled t sql params options w
          = (Inl (rewrap (DatabaseError NO_CLIENT None)), t, w)"
    using assms by (simp add: query_def executeDbQuery_no_client)
  then show ?thesis using Query by simp
next
  case Commit
  then show ?thesis using assms by (simp add: commit_result)
next
  case Rollback
  then show ?thesis using assms by (simp add: rollback_def)
qed

lemma invoke_all_no_client:
  "client t = None \<Longrightarrow> calls (snd (invoke_all conflict gen settled ms t w)) = calls w"
proof (induction ms arbitrary: t w)
  case Nil
  then show ?case by simp
next
  case (Cons m ms)
  obtain outcome t' w' where step: "invoke conflict gen settled m t w = (outcome, t', w')"
    by (cases "invoke conflict gen settled m t w")
  have "client t' = None"
    using invoke_client [of conflict gen settled m t w] step Cons.prems by simp
  moreover have "calls w' = calls w"
    using invoke_no_client [OF Cons.prems, of conflict gen settled m w] step by simp
  ultimately show ?case using step Cons.IH [of t' w'] by simp
qed

lemma healthy_single:
  "executeDbQuery conflict settled (Some healthy) (Sql s) p options w
     = (Inr (One s), w\<lparr>calls := calls w @ [(s, default_params p)]\<rparr>)"
proof -
  have "attempt settled (Some healthy) (Sql s) (default_params p) options w
          = (Inr (One s), w\<lparr>calls := calls w @ [(s, default_params p)]\<rparr>)"
    by (simp add: attempt_def pg_query_def healthy_def)
  then show ?thesis by (simp add: executeDbQuery_def manageDeadlocks_success)
qed

lemma rejecting_single:
  "executeDbQuery is_conflict_code settled (Some (rejecting s)) (Sql s) p options w
     = (Inl syntax_error, w\<lparr>calls := calls w @ [(s, default_params p)]\<rparr>)"
proof -
  have "attempt settled (Some (rejecting s)) (Sql s) (default_params p) options w
          = (Inl syntax_error, w\<lparr>calls := calls w @ [(s, default_params p)]\<rparr>)"
    by (simp add: attempt_def pg_query_def rejecting_def)
  moreover have "\<not> is_conflict_code syntax_error"
    by (simp add: is_conflict_code_def syntax_error_def)
  ultimately show ?thesis by (simp add: executeDbQuery_def manageDeadlocks_other_failure)
qed

text \<open>
  C1 (amended). \<^verbatim>\<open>rollback\<close> without a bound client returns successfully and does nothing.
  With a bound client it issues exactly one \<^verbatim>\<open>ROLLBACK\<close> and its outcome is that command's:
  it returns successfully when the command succeeds, and it throws the command's
  error, unchanged, when the command fails.
\<close>

theorem rollback_outcome:
  "(client t = None \<longrightarrow> rollback t w = (Inr (), t, w))
   \<and> (\<forall>c. client t = Some c \<longrightarrow>
         snd (rollback t w) = (t, w\<lparr>calls := calls w @ [(''ROLLBACK'', JUndefined)]\<rparr>)
         \<and> (\<forall>r. client_query c (calls w) (''ROLLBACK'', JUndefined) = Inr r \<longrightarrow> fst (rollback t w) = Inr ())
         \<and> (\<forall>e. client_query c (calls w) (''ROLLBACK'', JUndefined) = Inl e \<longrightarrow> fst (rollback t w) = Inl e))"
  by (simp add: rollback_def pg_query_def split: sum.splits)

theorem rollback_outcome_witness:
  "rollback (initializeDbTransaction (None :: string PoolClient option)) w0
     = (Inr (), initializeDbTransaction None, w0)
   \<and> rollback (initializeDbTransaction (Some healthy)) w0
     = (Inr (), initializeDbTransaction (Some healthy), w0\<lparr>calls := [(''ROLLBACK'', JUndefined)]\<rparr>)
   \<and> rollback (initializeDbTransaction (Some broken)) w0
     = (Inl connection_lost, initializeDbTransaction (Some broken), w0\<lparr>calls := [(''ROLLBACK'', JUndefined)]\<rparr>)"
proof -
  have a: "client (initializeDbTransaction (None :: string PoolClient option)) = None"
    and b: "client (initializeDbTransaction (Some healthy)) = Some healthy"
    and c: "client (initializeDbTransaction (Some broken)) = Some broken"
    by (simp_all add: initializeDbTransaction_def)
  have ok: "client_query healthy (calls w0) (''ROLLBACK'', JUndefined) = Inr ''ROLLBACK''"
    by (simp add: healthy_def)
  have ko: "client_query broken (calls w0) (''ROLLBACK'', JUndefined) = Inl connection_lost"
    by (simp add: broken_def)
  show ?thesis
    using rollback_outcome [of "initializeDbTransaction (None :: string PoolClient option)" w0]
      rollback_outcome [of "initializeDbTransaction (Some healthy)" w0]
      rollback_outcome [of "initializeDbTransaction (Some broken)" w0]
      a b c ok ko
    by (simp add: w0_def prod_eq_iff)
qed

text \<open>
  C1, as stated, fails on a handle that rejects the abort command: \<^verbatim>\<open>rollback\<close> throws
  the handle's error.
\<close>

theorem rollback_throws_counterexample:
  "fst (rollback (initializeDbTransaction (Some broken)) w0) = Inl connection_lost"
  by (simp add: rollback_def initializeDbTransaction_def pg_query_def broken_def)

text \<open>
  C2 (amended). In \<^verbatim>\<open>init\<close> and \<^verbatim>\<open>query\<close>, a failure whose cause is a \<^verbatim>\<open>DatabaseError\<close> or a
  \<^verbatim>\<open>TransactionError\<close> is replaced by a new \<^verbatim>\<open>TransactionError\<close>, and any other error is
  rethrown unchanged. In \<^verbatim>\<open>commit\<close>, every failure, of whatever class, is replaced by a new
  \<^verbatim>\<open>TransactionError\<close>.
\<close>

theorem transaction_boundary_errors:
  "(client t = None \<longrightarrow> (\<exists>e'. fst (init t w) = Inl e' \<and> err_class e' = TransactionErrorC))
   \<and> (\<forall>c e. client t = Some c \<and> client_query c (calls w) (''BEGIN'', JUndefined) = Inl e \<longrightarrow>
          (if err_class e = DatabaseErrorC \<or> err_class e = TransactionErrorC
           then \<exists>e'. fst (init t w) = Inl e' \<and> err_class e' = TransactionErrorC
           else fst (init t w) = Inl e))
   \<and> (\<forall>e. fst (executeDbQuery conflict settled (client t) sql (default_params params) options w) = Inl e \<longrightarrow>
          (if err_class e = DatabaseErrorC \<or> err_class e = TransactionErrorC
           then \<exists>e'. fst (query conflict gen settled t sql params options w) = Inl e'
                      \<and> err_class e' = TransactionErrorC
           else fst (query conflict gen settled t sql params options w) = Inl e))
   \<and> (client t = None \<longrightarrow> (\<exists>e'. fst (commit t w) = Inl e' \<and> err_class e' = TransactionErrorC))
   \<and> (\<forall>c e. client t = Some c \<and> client_query c (calls w) (''COMMIT'', JUndefined) = Inl e \<longrightarrow>
          (\<exists>e'. fst (commit t w) = Inl e' \<and> err_class e' = TransactionErrorC))"
proof (intro conjI allI impI)
  assume "client t = None"
  then show "\<exists>e'. fst (init t w) = Inl e' \<and> err_class e' = TransactionErrorC"
    by (simp add: init_result rewrap_class DatabaseError_def)
next
  fix c e
  assume "client t = Some c \<and> client_query c (calls w) (''BEGIN'', JUndefined) = Inl e"
  then have "fst (init t w) = Inl (rewrap e)" by (simp add: init_result)
  then show "if err_class e = DatabaseErrorC \<or> err_class e = TransactionErrorC
           then \<exists>e'. fst (init t w) = Inl e' \<and> err_class e' = TransactionErrorC
           else fst (init t w) = Inl e"
    by (auto simp: rewrap_class rewrap_other)
next
  fix e
  assume h: "fst (executeDbQuery conflict settled (client t) sql (default_params params) options w) = Inl e"
  obtain w' where "executeDbQuery conflict settled (client t) sql (default_params params) options w = (Inl e, w')"
    using h by (cases "executeDbQuery conflict settled (client t) sql (default_params params) options w") simp
  then have "fst (query conflict gen settled t sql params options w) = Inl (rewrap e)"
    by (simp add: query_failure)
  then show "if err_class e = DatabaseErrorC \<or> err_class e = TransactionErrorC
           then \<exists>e'. fst (query conflict gen settled t sql params options w) = Inl e'
                      \<and> err_class e' = TransactionErrorC
           else fst (query conflict gen settled t sql params options w) = Inl e"
    by (auto simp: rewrap_class rewrap_other)
next
  assume "client t = None"
  then show "\<exists>e'. fst (commit t w) = Inl e' \<and> err_class e' = TransactionErrorC"
    by (simp add: commit_result commit_catch_class)
next
  fix c e
  assume "client t = Some c \<and> client_query c (calls w) (''COMMIT'', JUndefined) = Inl e"
  then show "\<exists>e'. fst (commit t w) = Inl e' \<and> err_class e' = TransactionErrorC"
    by (simp add: commit_result commit_catch_class)
qed

theorem transaction_boundary_errors_witness:
  "client (initializeDbTransaction (None :: string PoolClient option)) = None
   \<and> client (initializeDbTransaction (Some broken)) = Some broken
   \<and> client_query broken (calls w0) (''BEGIN'', JUndefined) = Inl connection_lost
   \<and> client_query broken (calls w0) (''COMMIT'', JUndefined) = Inl connection_lost
   \<and> err_class connection_lost = OtherErrorC
   \<and> fst (init (initializeDbTransaction (Some broken)) w0) = Inl connection_lost
   \<and> fst (query is_conflict_code numbered [] (initializeDbTransaction (Some broken)) (Sql ''SELECT 1'') JUndefined None w0)
       = Inl connection_lost
   \<and> (\<exists>e'. fst (init (initializeDbTransaction (None :: string PoolClient option)) w0) = Inl e'
            \<and> err_class e' = TransactionErrorC)
   \<and> (\<exists>e'. fst (query is_conflict_code numbered [] (initializeDbTransaction (None :: string PoolClient option)) (Sql ''SELECT 1'') JUndefined None w0) = Inl e'
            \<and> err_class e' = TransactionErrorC)
   \<and> (\<exists>e'. fst (commit (initializeDbTransaction (None :: string PoolClient option)) w0) = Inl e'
            \<and> err_class e' = TransactionErrorC)
   \<and> (\<exists>e'. fst (commit (initializeDbTransaction (Some broken)) w0) = Inl e'
            \<and> err_class e' = TransactionErrorC)"
proof -
  let ?none = "initializeDbTransaction (None :: string PoolClient option)"
  let ?bound = "initializeDbTransaction (Some broken)"
  have n: "client ?none = None" and b: "client ?bound = Some broken"
    by (simp_all add: initializeDbTransaction_def)
  have at_begin: "client_query broken (calls w0) (''BEGIN'', JUndefined) = Inl connection_lost"
    and at_commit: "client_query broken (calls w0) (''COMMIT'', JUndefined) = Inl connection_lost"
    by (simp_all add: broken_def)
  have other: "err_class connection_lost = OtherErrorC" by (simp add: connection_lost_def)
  have quiet: "\<not> is_conflict_code connection_lost"
    by (simp add: is_conflict_code_def connection_lost_def)
  have "attempt [] (Some broken) (Sql ''SELECT 1'') (default_params (default_params JUndefined)) None w0
          = (Inl connection_lost, w0\<lparr>calls := calls w0 @ [(''SELECT 1'', JArr [])]\<rparr>)"
    by (simp add: attempt_def pg_query_def broken_def default_params_def)
  then have q_bound: "fst (executeDbQuery is_conflict_code [] (client ?bound) (Sql ''SELECT 1'') (default_params JUndefined) None w0)
                   = Inl connection_lost"
    unfolding b executeDbQuery_def using quiet by (simp add: manageDeadlocks_other_failure)
  have q_none: "fst (executeDbQuery is_conflict_code [] (client ?none) (Sql ''SELECT 1'') (default_params JUndefined) None w0)
                   = Inl (DatabaseError NO_CLIENT None)"
    by (simp add: n executeDbQuery_no_client)
  have db: "err_class (DatabaseError NO_CLIENT None) = DatabaseErrorC" by (simp add: DatabaseError_def)
  note on_none = transaction_boundary_errors [where t = ?none and w = w0 and conflict = is_conflict_code
      and settled = "[]" and sql = "Sql ''SELECT 1''" and params = JUndefined and options = None and gen = numbered]
  note on_bound = transaction_boundary_errors [where t = ?bound and w = w0 and conflict = is_conflict_code
      and settled = "[]" and sql = "Sql ''SELECT 1''" and params = JUndefined and options = None and gen = numbered]
  have 1: "fst (init ?bound w0) = Inl connection_lost"
    using on_bound b at_begin other by auto
  have 2: "fst (query is_conflict_code numbered [] ?bound (Sql ''SELECT 1'') JUndefined None w0) = Inl connection_lost"
    using on_bound q_bound other by auto
  have 3: "\<exists>e'. fst (init ?none w0) = Inl e' \<and> err_class e' = TransactionErrorC"
    using on_none n by blast
  have 4: "\<exists>e'. fst (query is_conflict_code numbered [] ?none (Sql ''SELECT 1'') JUndefined None w0) = Inl e'
            \<and> err_class e' = TransactionErrorC"
    using on_none q_none db by auto
  have 5: "\<exists>e'. fst (commit ?none w0) = Inl e' \<and> err_class e' = TransactionErrorC"
    using on_none n by blast
  have 6: "\<exists>e'. fst (commit ?bound w0) = Inl e' \<and> err_class e' = TransactionErrorC"
    using on_bound b at_commit by blast
  show ?thesis using n b at_begin at_commit other 1 2 3 4 5 6 by blast
qed

text \<open>
  C2, as stated, fails in \<^verbatim>\<open>commit\<close>: an error of the driver, neither a \<^verbatim>\<open>DatabaseError\<close>
  nor a \<^verbatim>\<open>TransactionError\<close>, is not rethrown unchanged but replaced.
\<close>

theorem commit_rewraps_counterexample:
  "client_query broken (calls w0) (''COMMIT'', JUndefined) = Inl connection_lost
   \<and> err_class connection_lost = OtherErrorC
   \<and> fst (commit (initializeDbTransaction (Some broken)) w0)
       = Inl (TransactionError ''Failed to commit transaction: 08006'' None)
   \<and> TransactionError ''Failed to commit transaction: 08006'' None \<noteq> connection_lost"
  by (simp add: commit_result initializeDbTransaction_def broken_def connection_lost_def
      commit_catch_def interpolated_def TransactionError_def)

text \<open>
  C7. \<^verbatim>\<open>init\<close>, \<^verbatim>\<open>commit\<close>, \<^verbatim>\<open>rollback\<close> and a failed \<^verbatim>\<open>query\<close> leave what \<^verbatim>\<open>retrieve\<close>
  returns as it was. A successful \<^verbatim>\<open>query\<close> replaces the reference and the timestamp by
  those of the reference drawn in that call, whatever they were before. After
  \<^verbatim>\<open>init(); query(S1); query(S2)\<close>, all successful, \<^verbatim>\<open>retrieve\<close> returns the reference drawn
  after \<open>S2\<close>, the second one, where it returned the first one after \<open>S1\<close>.
\<close>

theorem metadata_follows_last_successful_query:
  "retrieve (fst (snd (init t w))) = retrieve t
   \<and> retrieve (fst (snd (commit t w))) = retrieve t
   \<and> retrieve (fst (snd (rollback t w))) = retrieve t
   \<and> (\<forall>e t' w'. query conflict gen settled t sql params options w = (Inl e, t', w') \<longrightarrow>
         retrieve t' = retrieve t)
   \<and> (\<forall>r t' w'. query conflict gen settled t sql params options w = (Inr r, t', w') \<longrightarrow>
         retrieve t' = \<lparr>connection = connection (retrieve t),
                         referenceNo = Some (ref_uuid (gen (refs_drawn w))),
                         timestamp = Some (ref_timestamp (gen (refs_drawn w)))\<rparr>)
   \<and> (\<forall>u t1 w1 r1 t2 w2 r2 t3 w3.
         init t w = (Inr u, t1, w1)
         \<and> query conflict gen settled t1 sql1 params1 options1 w1 = (Inr r1, t2, w2)
         \<and> query conflict gen settled t2 sql2 params2 options2 w2 = (Inr r2, t3, w3) \<longrightarrow>
         retrieve t2 = \<lparr>connection = True,
                         referenceNo = Some (ref_uuid (gen (refs_drawn w))),
                         timestamp = Some (ref_timestamp (gen (refs_drawn w)))\<rparr>
         \<and> retrieve t3 = \<lparr>connection = True,
                           referenceNo = Some (ref_uuid (gen (Suc (refs_drawn w)))),
                           timestamp = Some (ref_timestamp (gen (Suc (refs_drawn w))))\<rparr>)"
proof (intro conjI allI impI)
  show "retrieve (fst (snd (init t w))) = retrieve t" by (simp add: init_state)
  show "retrieve (fst (snd (commit t w))) = retrieve t" by (simp add: commit_state)
  show "retrieve (fst (snd (rollback t w))) = retrieve t" by (simp add: rollback_state)
next
  fix e t' w'
  assume "query conflict gen settled t sql params options w = (Inl e, t', w')"
  then have "t' = t" by (rule query_cases(1))
  then show "retrieve t' = retrieve t" by simp
next
  fix r t' w'
  assume "query conflict gen settled t sql params options w = (Inr r, t', w')"
  then show "retrieve t' = \<lparr>connection = connection (retrieve t),
                         referenceNo = Some (ref_uuid (gen (refs_drawn w))),
                         timestamp = Some (ref_timestamp (gen (refs_drawn w)))\<rparr>"
    by (auto dest!: query_cases(2) simp: retrieve_def)
next
  fix u t1 w1 r1 t2 w2 r2 t3 w3
  assume h: "init t w = (Inr u, t1, w1)
         \<and> query conflict gen settled t1 sql1 params1 options1 w1 = (Inr r1, t2, w2)
         \<and> query conflict gen settled t2 sql2 params2 options2 w2 = (Inr r2, t3, w3)"
  then have i: "client t \<noteq> None" "t1 = t" "refs_drawn w1 = refs_drawn w"
    using init_success_client [of t w u t1 w1] by simp_all
  have q1: "t2 = t1\<lparr>timestamp_var := Some (ref_timestamp (gen (refs_drawn w1))),
            uuid := Some (ref_uuid (gen (refs_drawn w1)))\<rparr>" "refs_drawn w2 = Suc (refs_drawn w1)"
    using h query_cases(2) [of conflict gen settled t1 sql1 params1 options1 w1 r1 t2 w2] by simp_all
  have q2: "t3 = t2\<lparr>timestamp_var := Some (ref_timestamp (gen (refs_drawn w2))),
            uuid := Some (ref_uuid (gen (refs_drawn w2)))\<rparr>"
    using h query_cases(2) [of conflict gen settled t2 sql2 params2 options2 w2 r2 t3 w3] by simp
  show "retrieve t2 = \<lparr>connection = True,
                         referenceNo = Some (ref_uuid (gen (refs_drawn w))),
                         timestamp = Some (ref_timestamp (gen (refs_drawn w)))\<rparr>"
    using i q1 by (simp add: retrieve_def)
  show "retrieve t3 = \<lparr>connection = True,
                           referenceNo = Some (ref_uuid (gen (Suc (refs_drawn w)))),
                           timestamp = Some (ref_timestamp (gen (Suc (refs_drawn w))))\<rparr>"
    using i q1 q2 by (simp add: retrieve_def)
qed

theorem metadata_follows_last_successful_query_witness:
  "init (initializeDbTransaction (Some healthy)) w0
     = (Inr (), initializeDbTransaction (Some healthy), w0\<lparr>calls := [(''BEGIN'', JUndefined)]\<rparr>)
   \<and> query is_conflict_code numbered [] (initializeDbTransaction (Some healthy)) (Sql ''SELECT 1'') JUndefined None
         (w0\<lparr>calls := [(''BEGIN'', JUndefined)]\<rparr>)
     = (Inr (One ''SELECT 1''),
        \<lparr>client = Some healthy, uuid = Some ''REF'', timestamp_var = Some ''T''\<rparr>,
        \<lparr>calls = [(''BEGIN'', JUndefined), (''SELECT 1'', JArr [])], releases = 0, refs_drawn = 1\<rparr>)
   \<and> query is_conflict_code numbered [] \<lparr>client = Some healthy, uuid = Some ''REF'', timestamp_var = Some ''T''\<rparr>
         (Sql ''SELECT 2'') JUndefined None
         \<lparr>calls = [(''BEGIN'', JUndefined), (''SELECT 1'', JArr [])], releases = 0, refs_drawn = 1\<rparr>
     = (Inr (One ''SELECT 2''),
        \<lparr>client = Some healthy, uuid = Some ''REF+'', timestamp_var = Some ''T+''\<rparr>,
        \<lparr>calls = [(''BEGIN'', JUndefined), (''SELECT 1'', JArr []), (''SELECT 2'', JArr [])], releases = 0, refs_drawn = 2\<rparr>)
   \<and> retrieve \<lparr>client = Some healthy, uuid = Some ''REF'', timestamp_var = Some ''T''\<rparr>
     = \<lparr>connection = True, referenceNo = Some ''REF'', timestamp = Some ''T''\<rparr>
   \<and> retrieve \<lparr>client = Some healthy, uuid = Some ''REF+'', timestamp_var = Some ''T+''\<rparr>
     = \<lparr>connection = True, referenceNo = Some ''REF+'', timestamp = Some ''T+''\<rparr>
   \<and> fst (query is_conflict_code numbered [] \<lparr>client = Some (rejecting ''S2''), uuid = Some ''REF'', timestamp_var = Some ''T''\<rparr>
         (Sql ''S2'') JUndefined None w0) = Inl syntax_error
   \<and> retrieve (fst (snd (query is_conflict_code numbered [] \<lparr>client = Some (rejecting ''S2''), uuid = Some ''REF'', timestamp_var = Some ''T''\<rparr>
         (Sql ''S2'') JUndefined None w0)))
     = \<lparr>connection = True, referenceNo = Some ''REF'', timestamp = Some ''T''\<rparr>"
proof -
  let ?t0 = "initializeDbTransaction (Some healthy)"
  let ?w1 = "w0\<lparr>calls := [(''BEGIN'', JUndefined)]\<rparr>"
  let ?t1 = "\<lparr>client = Some healthy, uuid = Some ''REF'', timestamp_var = Some ''T''\<rparr>"
  let ?w2 = "\<lparr>calls = [(''BEGIN'', JUndefined), (''SELECT 1'', JArr [])], releases = 0, refs_drawn = 1\<rparr>"
  let ?t2 = "\<lparr>client = Some healthy, uuid = Some ''REF+'', timestamp_var = Some ''T+''\<rparr>"
  let ?w3 = "\<lparr>calls = [(''BEGIN'', JUndefined), (''SELECT 1'', JArr []), (''SELECT 2'', JArr [])], releases = 0, refs_drawn = 2\<rparr>"
  let ?tr = "\<lparr>client = Some (rejecting ''S2''), uuid = Some ''REF'', timestamp_var = Some ''T''\<rparr>"
  have i: "init ?t0 w0 = (Inr (), ?t0, ?w1)"
    by (simp add: init_result initializeDbTransaction_def healthy_def w0_def)
  have c0: "client ?t0 = Some healthy" by (simp add: initializeDbTransaction_def)
  have q1: "query is_conflict_code numbered [] ?t0 (Sql ''SELECT 1'') JUndefined None ?w1 = (Inr (One ''SELECT 1''), ?t1, ?w2)"
    using query_success [of is_conflict_code "[]" ?t0 "Sql ''SELECT 1''" JUndefined None ?w1 "One ''SELECT 1''" _ numbered]
    by (simp add: c0 healthy_single default_params_def)
       (simp add: initializeDbTransaction_def numbered_def w0_def)
  have q2: "query is_conflict_code numbered [] ?t1 (Sql ''SELECT 2'') JUndefined None ?w2 = (Inr (One ''SELECT 2''), ?t2, ?w3)"
    using query_success [of is_conflict_code "[]" ?t1 "Sql ''SELECT 2''" JUndefined None ?w2 "One ''SELECT 2''" _ numbered]
    by (simp add: healthy_single default_params_def) (simp add: numbered_def)
  have qr: "query is_conflict_code numbered [] ?tr (Sql ''S2'') JUndefined None w0
              = (Inl syntax_error, ?tr, w0\<lparr>calls := calls w0 @ [(''S2'', JArr [])]\<rparr>)"
    using query_failure [of is_conflict_code "[]" ?tr "Sql ''S2''" JUndefined None w0 syntax_error _ numbered]
    by (simp add: rejecting_single default_params_def rewrap_def syntax_error_def)
  note m = metadata_follows_last_successful_query [where t = ?t0 and w = w0 and conflict = is_conflict_code
      and gen = numbered and settled = "[]" and ?sql1.0 = "Sql ''SELECT 1''" and ?params1.0 = JUndefined
      and ?options1.0 = None and ?sql2.0 = "Sql ''SELECT 2''" and ?params2.0 = JUndefined and ?options2.0 = None]
  from m i q1 q2 have r: "retrieve ?t1 = \<lparr>connection = True,
                         referenceNo = Some (ref_uuid (numbered (refs_drawn w0))),
                         timestamp = Some (ref_timestamp (numbered (refs_drawn w0)))\<rparr>
         \<and> retrieve ?t2 = \<lparr>connection = True,
                           referenceNo = Some (ref_uuid (numbered (Suc (refs_drawn w0)))),
                           timestamp = Some (ref_timestamp (numbered (Suc (refs_drawn w0))))\<rparr>"
    by blast
  note f = metadata_follows_last_successful_query [where t = ?tr and w = w0 and conflict = is_conflict_code
      and gen = numbered and settled = "[]" and sql = "Sql ''S2''" and params = JUndefined and options = None]
  from f qr have "retrieve ?tr = retrieve ?tr" by blast
  have rr: "retrieve (fst (snd (query is_conflict_code numbered [] ?tr (Sql ''S2'') JUndefined None w0))) = retrieve ?tr"
    using f qr by simp
  have "retrieve ?tr = \<lparr>connection = True, referenceNo = Some ''REF'', timestamp = Some ''T''\<rparr>"
    by (simp add: retrieve_def)
  then show ?thesis using i q1 q2 r rr qr by (simp add: numbered_def w0_def)
qed

text \<open>
  C8 (amended). On a manager constructed without a client handle, whatever methods
  were called before (\<^verbatim>\<open>init\<close> among them or not), \<^verbatim>\<open>rollback\<close> returns successfully and no
  command was ever issued to a connection handle. On a manager constructed with a
  handle, \<^verbatim>\<open>rollback\<close> issues \<^verbatim>\<open>ROLLBACK\<close> to it even when \<^verbatim>\<open>init\<close> was never called.
\<close>

theorem rollback_without_client:
  "(case invoke_all conflict gen settled ms (initializeDbTransaction (None :: 'r PoolClient option)) w of
      (t, w') \<Rightarrow> rollback t w' = (Inr (), t, w') \<and> calls w' = calls w)
   \<and> snd (rollback (initializeDbTransaction (Some c)) w)
       = (initializeDbTransaction (Some c), w\<lparr>calls := calls w @ [(''ROLLBACK'', JUndefined)]\<rparr>)"
proof
  let ?t0 = "initializeDbTransaction (None :: 'r PoolClient option)"
  obtain t w' where run: "invoke_all conflict gen settled ms ?t0 w = (t, w')"
    by (cases "invoke_all conflict gen settled ms ?t0 w")
  have "client t = None"
    using invoke_all_client [of conflict gen settled ms ?t0 w] run
    by (simp add: initializeDbTransaction_def)
  then have "rollback t w' = (Inr (), t, w')" by (simp add: rollback_def)
  moreover have "calls w' = calls w"
    using invoke_all_no_client [of ?t0 conflict gen settled ms w] run
    by (simp add: initializeDbTransaction_def)
  ultimately show "case invoke_all conflict gen settled ms ?t0 w of
      (t, w') \<Rightarrow> rollback t w' = (Inr (), t, w') \<and> calls w' = calls w"
    using run by simp
next
  show "snd (rollback (initializeDbTransaction (Some c)) w)
       = (initializeDbTransaction (Some c), w\<lparr>calls := calls w @ [(''ROLLBACK'', JUndefined)]\<rparr>)"
    by (simp add: rollback_def initializeDbTransaction_def pg_query_def split: sum.splits)
qed

theorem rollback_without_client_witness:
  "invoke_all is_conflict_code numbered [] [Query (Sql ''SELECT 1'') JUndefined None, Commit]
       (initializeDbTransaction (None :: string PoolClient option)) w0
     = (initializeDbTransaction None, w0)
   \<and> rollback (initializeDbTransaction (None :: string PoolClient option)) w0
     = (Inr (), initializeDbTransaction None, w0)
   \<and> calls w0 = []
   \<and> snd (rollback (initializeDbTransaction (Some healthy)) w0)
       = (initializeDbTransaction (Some healthy), w0\<lparr>calls := [(''ROLLBACK'', JUndefined)]\<rparr>)"
proof -
  let ?t = "initializeDbTransaction (None :: string PoolClient option)"
  have n: "client ?t = None" by (simp add: initializeDbTransaction_def)
  have q: "query is_conflict_code numbered [] ?t (Sql ''SELECT 1'') JUndefined None w0
          = (Inl (rewrap (DatabaseError NO_CLIENT None)), ?t, w0)"
    using n by (simp add: query_def executeDbQuery_no_client)
  have c: "commit ?t w0 = (Inl (commit_catch (DatabaseError NO_CLIENT None)), ?t, w0)"
    using n by (simp add: commit_result)
  have run: "invoke_all is_conflict_code numbered [] [Query (Sql ''SELECT 1'') JUndefined None, Commit] ?t w0 = (?t, w0)"
    by (simp add: q c)
  show ?thesis
    using rollback_without_client [where conflict = is_conflict_code and gen = numbered and settled = "[]"
        and ms = "[Query (Sql ''SELECT 1'') JUndefined None, Commit]" and w = w0 and c = healthy
        and ?'r = string] run
    by (simp add: w0_def)
qed

text \<open>
  C8, as stated, fails on a manager bound to a handle: with \<^verbatim>\<open>init\<close> never called,
  \<^verbatim>\<open>rollback\<close> sends \<^verbatim>\<open>ROLLBACK\<close> to the handle.
\<close>

theorem rollback_before_init_counterexample:
  "calls (snd (snd (rollback (transaction \<lparr>session_client = Some healthy\<rparr>) w0)))
     = [(''ROLLBACK'', JUndefined)]
   \<and> calls w0 = []"
  by (simp add: rollback_def transaction_def initializeDbTransaction_def pg_query_def healthy_def w0_def)

text \<open>
  C10. The \<^verbatim>\<open>connection\<close> field of \<^verbatim>\<open>retrieve\<close> says whether a client was bound at
  construction: no method changes it, and after any sequence of method calls it is
  what it was on the fresh object.
\<close>

theorem connection_fixed_at_construction:
  "connection (retrieve (initializeDbTransaction c)) = (c \<noteq> None)
   \<and> connection (retrieve (fst (snd (init t w)))) = connection (retrieve t)
   \<and> connection (retrieve (fst (snd (query conflict gen settled t sql params options w)))) = connection (retrieve t)
   \<and> connection (retrieve (fst (snd (commit t w)))) = connection (retrieve t)
   \<and> connection (retrieve (fst (snd (rollback t w)))) = connection (retrieve t)
   \<and> connection (retrieve (fst (invoke_all conflict gen settled ms (initializeDbTransaction c) w))) = (c \<noteq> None)"
  by (simp add: retrieve_def init_state commit_state rollback_state query_client invoke_all_client)
     (simp add: initializeDbTransaction_def)

theorem connection_fixed_at_construction_witness:
  "connection (retrieve (fst (invoke_all is_conflict_code numbered []
       [Init, Query (Sql ''SELECT 1'') JUndefined None, Commit, Rollback]
       (initializeDbTransaction (Some healthy)) w0))) = True
   \<and> connection (retrieve (fst (snd (commit (initializeDbTransaction (Some healthy)) w0)))) = True
   \<and> connection (retrieve (fst (snd (rollback (initializeDbTransaction (Some broken)) w0)))) = True
   \<and> connection (retrieve (fst (invoke_all is_conflict_code numbered []
       [Init, Query (Sql ''SELECT 1'') JUndefined None, Commit, Rollback]
       (initializeDbTransaction (None :: string PoolClient option)) w0))) = False"
proof -
  let ?ms = "[Init, Query (Sql ''SELECT 1'') JUndefined None, Commit, Rollback]"
  note h = connection_fixed_at_construction [where c = "Some healthy" and t = "initializeDbTransaction (Some healthy)"
      and w = w0 and conflict = is_conflict_code and gen = numbered and settled = "[]" and ms = ?ms]
  note b = connection_fixed_at_construction [where c = "Some broken" and t = "initializeDbTransaction (Some broken)"
      and w = w0]
  note n = connection_fixed_at_construction [where c = "None :: string PoolClient option"
      and w = w0 and conflict = is_conflict_code and gen = numbered and settled = "[]" and ms = ?ms]
  have 1: "connection (retrieve (fst (invoke_all is_conflict_code numbered [] ?ms
             (initializeDbTransaction (Some healthy)) w0))) = (Some healthy \<noteq> None)"
    using h by blast
  have 2: "connection (retrieve (fst (snd (commit (initializeDbTransaction (Some healthy)) w0)))) = (Some healthy \<noteq> None)"
    using h by metis
  have 3: "connection (retrieve (fst (snd (rollback (initializeDbTransaction (Some broken)) w0)))) = (Some broken \<noteq> None)"
    using b by metis
  have 4: "connection (retrieve (fst (invoke_all is_conflict_code numbered [] ?ms
             (initializeDbTransaction (None :: string PoolClient option)) w0)))
            = ((None :: string PoolClient option) \<noteq> None)"
    using n by blast
  show ?thesis
    unfolding 1 2 3 4 by simp
qed

end
